theory Spec2Isabelle
  imports Main
begin

section \<open>Ledger signer session: data model\<close>

text \<open>
  A shallow embedding of \<^verbatim>\<open>src/main/signers/ledger/Ledger/index.ts\<close> and of the part of
  \<^verbatim>\<open>src/main/signers/ledger/Ledger/eth.ts\<close> it calls.

  The object literal \<^verbatim>\<open>STATUS\<close> holds eight pairwise different strings and the class only
  ever compares a status with one of its members, so it is a datatype with one constructor
  per member.
\<close>

datatype status =
    INITIAL             \<comment> \<open>\<^verbatim>\<open>'Connecting'\<close>\<close>
  | OK                  \<comment> \<open>\<^verbatim>\<open>'ok'\<close>\<close>
  | LOADING             \<comment> \<open>\<^verbatim>\<open>'loading'\<close>\<close>
  | DERIVING            \<comment> \<open>\<^verbatim>\<open>'Deriving addresses'\<close>\<close>
  | LOCKED              \<comment> \<open>\<^verbatim>\<open>'Please unlock your ledger'\<close>\<close>
  | WRONG_APP           \<comment> \<open>\<^verbatim>\<open>'Open your Ledger and select the Ethereum application'\<close>\<close>
  | DISCONNECTED        \<comment> \<open>\<^verbatim>\<open>'Disconnected'\<close>\<close>
  | NEEDS_RECONNECTION  \<comment> \<open>\<^verbatim>\<open>'Please reconnect this Ledger device'\<close>\<close>

text \<open>
  \<^verbatim>\<open>interface DeviceError { statusCode: number, message: string }\<close>. Values reach the error
  path through \<^verbatim>\<open>e as DeviceError\<close>, also plain \<^verbatim>\<open>Error\<close> objects that carry no
  \<^verbatim>\<open>statusCode\<close>; \<open>None\<close> is that \<^verbatim>\<open>undefined\<close>. Status codes are integers.
\<close>

record DeviceError =
  statusCode :: "int option"
  message :: string

text \<open>\<^verbatim>\<open>interface Address { address, publicKey, chainCode? }\<close>\<close>

record Address =
  address :: string
  publicKey :: string
  chainCode :: "string option"

text \<open>\<^verbatim>\<open>enum Derivation\<close> of \<^verbatim>\<open>eth.ts\<close>\<close>

datatype Derivation = live | legacy | standard | testnet

section \<open>Error classifier\<close>

text \<open>\<^verbatim>\<open>[27404].includes(err.statusCode)\<close>; \<^verbatim>\<open>includes\<close> of \<^verbatim>\<open>undefined\<close> is false.\<close>

definition isDeviceAsleep :: "DeviceError \<Rightarrow> bool" where
  "isDeviceAsleep err =
     (case statusCode err of None \<Rightarrow> False | Some c \<Rightarrow> c \<in> set [27404])"

definition needToOpenEthApp :: "DeviceError \<Rightarrow> bool" where
  "needToOpenEthApp err =
     (case statusCode err of None \<Rightarrow> False | Some c \<Rightarrow> c \<in> set [27904, 27906, 25873, 25871])"

definition getStatusForError :: "DeviceError \<Rightarrow> status" where
  "getStatusForError err =
     (if needToOpenEthApp err then WRONG_APP
      else if isDeviceAsleep err then LOCKED
      else NEEDS_RECONNECTION)"

section \<open>Session state\<close>

text \<open>
  A call of the callback of \<^verbatim>\<open>verifyAddress\<close>: the message of the error passed first
  (\<open>None\<close> for \<^verbatim>\<open>null\<close>) and the result passed second (\<open>None\<close> for \<^verbatim>\<open>undefined\<close>).
  The callback is the caller's: it is a function of the call that tells what the callback
  throws, \<open>None\<close> when it returns.
\<close>

type_synonym cb_call = "string option \<times> bool option"

type_synonym Callback = "cb_call \<Rightarrow> DeviceError option"

text \<open>
  A request of the queue is a closure \<^verbatim>\<open>{ type, execute }\<close>. The class builds four kinds of
  closure; each constructor carries what its closure captures: the loop index \<^verbatim>\<open>i\<close>, the
  \<^verbatim>\<open>targetDerivation\<close>, the arguments of \<^verbatim>\<open>verifyAddress\<close> with its callback, and the
  \<^verbatim>\<open>lastStatus\<close> of the poller.
\<close>

datatype Request =
    DeriveLive nat
  | DeriveHardware "Derivation option"
  | VerifyAddress nat string bool Callback
  | CheckDeviceStatus status

fun rtype :: "Request \<Rightarrow> string" where
  "rtype (DeriveLive i) = ''deriveAddresses''"
| "rtype (DeriveHardware targetDerivation) = ''deriveAddresses''"
| "rtype (VerifyAddress index' currentAddress display cb) = ''verifyAddress''"
| "rtype (CheckDeviceStatus lastStatus') = ''checkDeviceStatus''"

text \<open>
  Modelled from the spec: the class \<^verbatim>\<open>RequestQueue\<close> of \<^verbatim>\<open>./requestQueue\<close>, which is not among
  the sources. The spec gives it an ordered sequence of pending requests and a running flag;
  \<^verbatim>\<open>start\<close> begins processing, \<^verbatim>\<open>add\<close> appends to the tail, \<^verbatim>\<open>clear\<close> discards all pending
  requests (a request that already started is no longer pending and finishes normally),
  \<^verbatim>\<open>peekBack\<close> inspects the most recently enqueued request, and \<^verbatim>\<open>close\<close> stops processing and
  clears the pending work.
\<close>

record RequestQueue =
  pending :: "Request list"
  running :: bool

definition rq_start :: "RequestQueue \<Rightarrow> RequestQueue" where
  "rq_start q = q\<lparr>running := True\<rparr>"

definition rq_add :: "Request \<Rightarrow> RequestQueue \<Rightarrow> RequestQueue" where
  "rq_add req q = q\<lparr>pending := pending q @ [req]\<rparr>"

definition rq_clear :: "RequestQueue \<Rightarrow> RequestQueue" where
  "rq_clear q = q\<lparr>pending := []\<rparr>"

definition rq_peekBack :: "RequestQueue \<Rightarrow> Request option" where
  "rq_peekBack q = (if pending q = [] then None else Some (last (pending q)))"

definition rq_close :: "RequestQueue \<Rightarrow> RequestQueue" where
  "rq_close q = q\<lparr>pending := [], running := False\<rparr>"

text \<open>
  The timer behind \<^verbatim>\<open>statusPoller\<close>: the \<^verbatim>\<open>frequency\<close> it was scheduled with and the
  \<^verbatim>\<open>lastStatus\<close> its callback captured.
\<close>

record poll_timer =
  frequency :: nat
  lastStatus :: status

text \<open>
  The fields of the class \<^verbatim>\<open>Ledger\<close> that its methods read or write.
  \<^item> \<open>eth\<close>: whether \<^verbatim>\<open>this.eth\<close> is defined (the transport is open).
  \<^item> \<open>statusPoller\<close>: the one timer handle of the class. \<open>Some t\<close> is a pending timer, \<open>None\<close>
    is a handle whose timer was cleared or has run (the no-op timer of the initialiser).
    Every \<^verbatim>\<open>setTimeout\<close> stored in the handle follows a \<^verbatim>\<open>clearInterval\<close> of the handle or
    the run of the timer the handle held, so no second poller timer is ever pending.
  \<^item> \<open>emitted\<close>: the calls of \<^verbatim>\<open>this.emit\<close>, oldest first.
  \<^verbatim>\<open>devicePath\<close>, \<^verbatim>\<open>id\<close>, \<^verbatim>\<open>type\<close>, \<^verbatim>\<open>coinbase\<close> and \<^verbatim>\<open>appVersion\<close> are left out: no branch
  of the methods below reads them.
\<close>

record Ledger =
  eth :: bool
  derivation :: "Derivation option"
  accountLimit :: nat
  requestQueue :: RequestQueue
  statusPoller :: "poll_timer option"
  addresses :: "string list"
  status :: status
  emitted :: "string list"

text \<open>The state the constructor leaves: \<^verbatim>\<open>accountLimit = 5\<close>, no addresses, \<^verbatim>\<open>STATUS.INITIAL\<close>.\<close>

definition constructor :: Ledger where
  "constructor =
     \<lparr>eth = False, derivation = None, accountLimit = 5,
      requestQueue = \<lparr>pending = [], running = False\<rparr>,
      statusPoller = None, addresses = [], status = INITIAL, emitted = []\<rparr>"

definition emit :: "string \<Rightarrow> Ledger \<Rightarrow> Ledger" where
  "emit ev s = s\<lparr>emitted := emitted s @ [ev]\<rparr>"

definition clearTimeout :: "Ledger \<Rightarrow> Ledger" where
  "clearTimeout s = s\<lparr>statusPoller := None\<rparr>"

definition enqueueRequests :: "Request list \<Rightarrow> Ledger \<Rightarrow> Ledger" where
  "enqueueRequests requests s =
     s\<lparr>requestQueue := fold rq_add requests (requestQueue s)\<rparr>"

text \<open>\<^verbatim>\<open>open\<close>: the transport is opened and the queue started.\<close>

definition open_session :: "Ledger \<Rightarrow> Ledger" where
  "open_session s = s\<lparr>eth := True, requestQueue := rq_start (requestQueue s)\<rparr>"

text \<open>
  \<^verbatim>\<open>close\<close>. The queue is closed and the timer cleared at once; what follows
  \<^verbatim>\<open>await this.eth.close()\<close> runs once the transport has closed. No caller awaits the
  method and nothing below reads the state in between, so it is one step here; closing
  the transport is taken to succeed. \<^verbatim>\<open>removeAllListeners\<close> and \<^verbatim>\<open>super.close\<close> (class
  \<^verbatim>\<open>Signer\<close>, not among the sources) touch no field of the record.
\<close>

definition close :: "Ledger \<Rightarrow> Ledger" where
  "close s =
     (let s1 = s\<lparr>requestQueue := rq_close (requestQueue s)\<rparr>;
          s2 = clearTimeout s1;
          s3 = (if eth s2 then s2\<lparr>eth := False\<rparr> else s2)
      in emit ''close'' s3)"

section \<open>Status updates and the poller\<close>

text \<open>\<^verbatim>\<open>pollDeviceStatus\<close>: schedules the next tick and stores its handle.\<close>

definition pollDeviceStatus :: "nat \<Rightarrow> Ledger \<Rightarrow> Ledger" where
  "pollDeviceStatus freq s =
     s\<lparr>statusPoller := Some \<lparr>frequency = freq, lastStatus = status s\<rparr>\<rparr>"

definition updateStatus :: "status \<Rightarrow> Ledger \<Rightarrow> Ledger" where
  "updateStatus st s =
     (let s1 = s\<lparr>status := st\<rparr>;
          s2 = (if status s1 = OK then pollDeviceStatus 5000 (clearTimeout s1) else s1);
          s3 = (if status s2 = LOCKED then pollDeviceStatus 500 (clearTimeout s2) else s2)
      in s3)"

text \<open>
  The callback of the poller's timer, run on the state in which the timer fires: unless the
  tail of the queue is a probe already, a probe is enqueued; then the next tick is
  scheduled with the same frequency.
\<close>

definition pollTick :: "poll_timer \<Rightarrow> Ledger \<Rightarrow> Ledger" where
  "pollTick t s =
     (let lastRequest = rq_peekBack (requestQueue s);
          s1 = (case lastRequest of
                  None \<Rightarrow> enqueueRequests [CheckDeviceStatus (lastStatus t)] s
                | Some req \<Rightarrow>
                    if rtype req \<noteq> ''checkDeviceStatus''
                    then enqueueRequests [CheckDeviceStatus (lastStatus t)] s
                    else s)
      in pollDeviceStatus (frequency t) s1)"

text \<open>The pending timer of the handle, if there is one, fires.\<close>

definition timerFires :: "Ledger \<Rightarrow> Ledger" where
  "timerFires s = (case statusPoller s of None \<Rightarrow> s | Some t \<Rightarrow> pollTick t s)"

definition isReady :: "Ledger \<Rightarrow> bool" where
  "isReady s = (status s \<in> set [INITIAL, OK])"

section \<open>The error-handling entry point\<close>

definition handleError :: "DeviceError \<Rightarrow> Ledger \<Rightarrow> Ledger" where
  "handleError err s =
     (if isDeviceAsleep err \<and> status s \<noteq> LOCKED then
        emit ''lock'' (updateStatus LOCKED s)
      else
        (let errorStatus = getStatusForError err in
         if errorStatus \<noteq> status s then
           (let s1 = emit ''update'' (updateStatus errorStatus s) in
            if status s1 = NEEDS_RECONNECTION then close s1 else s1)
         else s))"

text \<open>A sequence of errors handled one after the other.\<close>

fun handleErrors :: "DeviceError list \<Rightarrow> Ledger \<Rightarrow> Ledger" where
  "handleErrors [] s = s"
| "handleErrors (err # errs) s = handleErrors errs (handleError err s)"

text \<open>
  The number of entries into \<open>LOCKED\<close> along such a sequence: the steps that start in a
  status other than \<open>LOCKED\<close> and end in \<open>LOCKED\<close>.
\<close>

fun lockEntries :: "DeviceError list \<Rightarrow> Ledger \<Rightarrow> nat" where
  "lockEntries [] s = 0"
| "lockEntries (err # errs) s =
     (if status s \<noteq> LOCKED \<and> status (handleError err s) = LOCKED then 1 else 0)
     + lockEntries errs (handleError err s)"

section \<open>The device and the guarded calls\<close>

text \<open>
  How a call of the device SDK ends: it resolves or rejects after a number of
  milliseconds, or it never settles.
\<close>

datatype 'a response = Resolves nat 'a | Rejects nat DeviceError | Never

text \<open>\<^verbatim>\<open>{ version: string }\<close>; the code allows for an absent version.\<close>

record AppConfiguration =
  version :: "string option"

text \<open>
  What lies outside the sources: the device SDK (\<^verbatim>\<open>Eth.getAddress\<close> with its path, where
  \<open>None\<close> is an \<^verbatim>\<open>undefined\<close> path, \<^verbatim>\<open>display\<close> and \<^verbatim>\<open>chainCode\<close>; \<^verbatim>\<open>Eth.getAppConfiguration\<close>),
  \<^verbatim>\<open>deriveHDAccounts\<close> of \<^verbatim>\<open>Signer/derive\<close>, which calls back with an error or with
  the addresses, and \<^verbatim>\<open>String.prototype.toLowerCase\<close> of the language, which lowers every
  cased letter of a string. They are parameters of the model.
\<close>

record Env =
  eth_getAddress :: "string option \<Rightarrow> bool \<Rightarrow> bool \<Rightarrow> Address response"
  eth_getAppConfiguration :: "AppConfiguration response"
  deriveHDAccounts :: "string \<Rightarrow> string option \<Rightarrow> DeviceError + string list"
  toLowerCase :: "string \<Rightarrow> string"

text \<open>
  What is known of \<^verbatim>\<open>toLowerCase\<close> without the tables of the language: on a string of
  ASCII characters it replaces the letters \<^verbatim>\<open>A\<close> to \<^verbatim>\<open>Z\<close> by \<^verbatim>\<open>a\<close> to \<^verbatim>\<open>z\<close> and leaves every other
  character. \<open>lowerAZ\<close> is that replacement and \<open>ascii\<close> the strings it is right for.
\<close>

definition lowerAZ_char :: "char \<Rightarrow> char" where
  "lowerAZ_char c =
     (case map_of (zip ''ABCDEFGHIJKLMNOPQRSTUVWXYZ'' ''abcdefghijklmnopqrstuvwxyz'') c of
        None \<Rightarrow> c
      | Some l \<Rightarrow> l)"

definition lowerAZ :: "string \<Rightarrow> string" where
  "lowerAZ str = map lowerAZ_char str"

definition ascii :: "string \<Rightarrow> bool" where
  "ascii str = (\<forall>c \<in> set str. \<not> digit7 c)"

text \<open>An awaited call without a timer: \<open>None\<close> when it never settles.\<close>

fun await :: "'a response \<Rightarrow> (DeviceError + 'a) option" where
  "await (Resolves t v) = Some (Inr v)"
| "await (Rejects t e) = Some (Inl e)"
| "await Never = None"

text \<open>
  A call raced against a timer of \<open>limit\<close> milliseconds that rejects with \<open>timeout\<close>: the
  call wins when it settles earlier than the timer fires.
\<close>

fun race :: "nat \<Rightarrow> DeviceError \<Rightarrow> 'a response \<Rightarrow> DeviceError + 'a" where
  "race limit timeout (Resolves t v) = (if t < limit then Inr v else Inl timeout)"
| "race limit timeout (Rejects t e) = (if t < limit then Inl e else Inl timeout)"
| "race limit timeout Never = Inl timeout"

subsection \<open>\<^verbatim>\<open>eth.ts\<close>\<close>

fun string_of_nat :: "nat \<Rightarrow> string" where
  "string_of_nat n =
     (if n < 10 then [''0123456789'' ! n]
      else string_of_nat (n div 10) @ [''0123456789'' ! (n mod 10)])"

declare string_of_nat.simps [simp del]

text \<open>The table \<^verbatim>\<open>derivationPaths\<close> has no entry for \<^verbatim>\<open>live\<close>.\<close>

fun derivationPaths :: "Derivation \<Rightarrow> string option" where
  "derivationPaths legacy = Some (''44'' @ [CHR 0x27] @ ''/60'' @ [CHR 0x27] @ ''/0'' @ [CHR 0x27] @ ''/'')"
| "derivationPaths standard = Some (''44'' @ [CHR 0x27] @ ''/60'' @ [CHR 0x27] @ ''/0'' @ [CHR 0x27] @ ''/0/'')"
| "derivationPaths testnet = Some (''44'' @ [CHR 0x27] @ ''/1'' @ [CHR 0x27] @ ''/0'' @ [CHR 0x27] @ ''/0/'')"
| "derivationPaths live = None"

text \<open>
  \<^verbatim>\<open>getPath\<close>; the index is a natural number. Only \<^verbatim>\<open>live\<close> has no entry in the table, so
  the branch of an \<^verbatim>\<open>undefined\<close> entry (\<^verbatim>\<open>undefined + index\<close>) is never taken.
\<close>

definition getPath :: "Derivation \<Rightarrow> nat \<Rightarrow> string" where
  "getPath d index' =
     (if d = live then
        ''44'' @ [CHR 0x27] @ ''/60'' @ [CHR 0x27] @ ''/'' @ string_of_nat index' @ [CHR 0x27] @ ''/0/0''
      else (case derivationPaths d of
              None \<Rightarrow> ''NaN''
            | Some base \<Rightarrow> base @ string_of_nat index'))"

text \<open>
  \<^verbatim>\<open>LedgerEthereumApp.deriveAddresses\<close>: the extended key is fetched from the device and
  handed to \<^verbatim>\<open>deriveHDAccounts\<close>; either failure rejects.
\<close>

definition eth_deriveAddresses :: "Env \<Rightarrow> Derivation \<Rightarrow> string list response" where
  "eth_deriveAddresses env d =
     (case eth_getAddress env (derivationPaths d) False True of
        Resolves t result \<Rightarrow>
          (case deriveHDAccounts env (publicKey result) (chainCode result) of
             Inl err \<Rightarrow> Rejects t err
           | Inr addrs \<Rightarrow> Resolves t addrs)
      | Rejects t e \<Rightarrow> Rejects t e
      | Never \<Rightarrow> Never)"

subsection \<open>Direct device access of the session\<close>

text \<open>
  \<^verbatim>\<open>getAddress\<close> of the class: rejects when the app is not connected; unless \<^verbatim>\<open>display\<close> is
  set, the call is raced against a 3000 ms timer that rejects with code \<open>-1\<close>. With
  \<^verbatim>\<open>display\<close> there is no timer, and the promise may never settle (\<open>None\<close>). Here and
  in the next functions the argument \<open>r\<close> is how the one SDK call they make ends.
\<close>

definition getAddress :: "Address response \<Rightarrow> bool \<Rightarrow> Ledger \<Rightarrow> (DeviceError + Address) option" where
  "getAddress r display s =
     (if \<not> eth s then
        Some (Inl \<lparr>statusCode = None,
                   message = ''tried to get address but Eth app is not connected!''\<rparr>)
      else if \<not> display then
        Some (race 3000 \<lparr>statusCode = Some (- 1), message = ''getAddress timed out''\<rparr> r)
      else await r)"

text \<open>
  The rejection of the 1000 ms timer of \<^verbatim>\<open>getAppConfiguration\<close>, built from the status the
  session has when the timer fires.
\<close>

definition getAppConfiguration_timeout :: "Ledger \<Rightarrow> DeviceError" where
  "getAppConfiguration_timeout s =
     \<lparr>statusCode = Some (if status s = INITIAL then 27904 else - 1),
      message = ''getAppConfiguration timed out''\<rparr>"

text \<open>
  \<^verbatim>\<open>getAppConfiguration\<close> of the class. The session is taken not to change between the call
  and the timer.
\<close>

definition getAppConfiguration :: "AppConfiguration response \<Rightarrow> Ledger \<Rightarrow> DeviceError + AppConfiguration" where
  "getAppConfiguration r s =
     (if \<not> eth s then
        Inl \<lparr>statusCode = None,
             message = ''tried to get app configuration but Eth app is not connected!''\<rparr>
      else race 1000 (getAppConfiguration_timeout s) r)"

section \<open>The liveness probe\<close>

text \<open>
  The promise \<^verbatim>\<open>check\<close> of \<^verbatim>\<open>checkDeviceStatus\<close>. Its executor only ever resolves: with
  \<open>-1\<close> from the 3000 ms timer, with \<open>0\<close> when the awaited call returns (at once when
  \<^verbatim>\<open>this.eth\<close> is undefined, by \<^verbatim>\<open>?.\<close>), and with \<^verbatim>\<open>e.statusCode || -1\<close> when it throws,
  where an absent code and the code \<open>0\<close> are falsy. The first resolution counts.
\<close>

definition checkDeviceStatus_check :: "Address response \<Rightarrow> Ledger \<Rightarrow> int" where
  "checkDeviceStatus_check r s =
     (if \<not> eth s then 0
      else (case r of
              Resolves t a \<Rightarrow> if t < 3000 then 0 else - 1
            | Rejects t e \<Rightarrow>
                if t < 3000 then
                  (case statusCode e of None \<Rightarrow> - 1 | Some c \<Rightarrow> if c \<noteq> 0 then c else - 1)
                else - 1
            | Never \<Rightarrow> - 1))"

text \<open>The handler passed to \<^verbatim>\<open>check.then\<close>, run on the session as it is by then.\<close>

definition checkDeviceStatus_then :: "int \<Rightarrow> Ledger \<Rightarrow> int \<times> Ledger" where
  "checkDeviceStatus_then code s =
     (if code = 0 then
        (if status s = LOCKED then
           (code, emit ''unlock'' (updateStatus OK (clearTimeout s)))
         else (code, s))
      else (code, handleError \<lparr>statusCode = Some code, message = ''''\<rparr> s))"

text \<open>
  \<^verbatim>\<open>checkDeviceStatus\<close>: the promise it returns, \<open>Inr\<close> when fulfilled and \<open>Inl\<close> when
  rejected, and the session afterwards.
\<close>

definition checkDeviceStatus :: "Address response \<Rightarrow> Ledger \<Rightarrow> (DeviceError + int) \<times> Ledger" where
  "checkDeviceStatus r s =
     (case checkDeviceStatus_then (checkDeviceStatus_check r s) s of
        (code, s') \<Rightarrow> (Inr code, s'))"

text \<open>The path of the probe, \<^verbatim>\<open>"44'/60'/0'/0"\<close>.\<close>

definition probePath :: string where
  "probePath = ''44'' @ [CHR 0x27] @ ''/60'' @ [CHR 0x27] @ ''/0'' @ [CHR 0x27] @ ''/0''"

section \<open>Requests\<close>

text \<open>
  How the promise of a request's \<^verbatim>\<open>execute\<close> ends: settled, with the error it rejected
  with (\<open>None\<close> when it fulfilled), the callback calls it made and the session it leaves;
  or never settled, in which case the queue never starts another request.
\<close>

datatype exec = Settled "DeviceError option" "cb_call list" Ledger | Hangs

text \<open>
  Each \<^verbatim>\<open>execute\<close> runs up to its \<^verbatim>\<open>await\<close> (\<open>_begin\<close>: the guards, which throw, and the
  argument of the device call), and continues when the device call has settled
  (\<open>_resume\<close>), on the session as it is by then. \<open>_execute\<close> is the run in which nothing
  else touches the session in between.
\<close>

subsection \<open>Per-index derivation\<close>

definition deriveLive_begin :: "nat \<Rightarrow> Ledger \<Rightarrow> DeviceError + string" where
  "deriveLive_begin i s =
     (if \<not> eth s then
        Inl \<lparr>statusCode = None,
             message = ''attempted to derive addresses but Eth app is not connected!''\<rparr>
      else (case derivation s of
              None \<Rightarrow>
                Inl \<lparr>statusCode = None,
                     message = ''attempted to derive addresses for unknown derivation!''\<rparr>
            | Some d \<Rightarrow> Inr (getPath d i)))"

definition deriveLive_resume :: "DeviceError + Address \<Rightarrow> Ledger \<Rightarrow> Ledger" where
  "deriveLive_resume res s =
     (case res of
        Inl e \<Rightarrow> handleError e s
      | Inr a \<Rightarrow>
          if derivation s = Some live then
            (let s1 = (if status s = DERIVING then updateStatus OK s else s);
                 s2 = s1\<lparr>addresses := addresses s1 @ [address a]\<rparr>
             in emit ''update'' s2)
          else s)"

definition deriveLive_execute :: "Env \<Rightarrow> nat \<Rightarrow> Ledger \<Rightarrow> exec" where
  "deriveLive_execute env i s =
     (case deriveLive_begin i s of
        Inl e \<Rightarrow> Settled None [] (handleError e s)
      | Inr path \<Rightarrow>
          (case await (eth_getAddress env (Some path) False False) of
             None \<Rightarrow> Hangs
           | Some res \<Rightarrow> Settled None [] (deriveLive_resume res s)))"

subsection \<open>Bulk derivation\<close>

definition deriveHardware_begin :: "Ledger \<Rightarrow> DeviceError + Derivation" where
  "deriveHardware_begin s =
     (if \<not> eth s then
        Inl \<lparr>statusCode = None,
             message = ''attempted to derive addresses but Eth app is not connected!''\<rparr>
      else (case derivation s of
              None \<Rightarrow>
                Inl \<lparr>statusCode = None,
                     message = ''attempted to derive addresses for unknown derivation!''\<rparr>
            | Some d \<Rightarrow> Inr d))"

definition deriveHardware_resume ::
  "Derivation option \<Rightarrow> DeviceError + string list \<Rightarrow> Ledger \<Rightarrow> Ledger" where
  "deriveHardware_resume targetDerivation res s =
     (case res of
        Inl e \<Rightarrow> handleError e s
      | Inr addrs \<Rightarrow>
          if derivation s = targetDerivation then
            (let s1 = (if status s = DERIVING then updateStatus OK s else s);
                 s2 = s1\<lparr>addresses := addrs\<rparr>
             in emit ''update'' s2)
          else s)"

definition deriveHardware_execute :: "Env \<Rightarrow> Derivation option \<Rightarrow> Ledger \<Rightarrow> exec" where
  "deriveHardware_execute env targetDerivation s =
     (case deriveHardware_begin s of
        Inl e \<Rightarrow> Settled None [] (handleError e s)
      | Inr d \<Rightarrow>
          (case await (eth_deriveAddresses env d) of
             None \<Rightarrow> Hangs
           | Some res \<Rightarrow> Settled None [] (deriveHardware_resume targetDerivation res s)))"

subsection \<open>Address verification\<close>

text \<open>The two guards stand before the \<^verbatim>\<open>try\<close>: they reject the promise of \<^verbatim>\<open>execute\<close>.\<close>

definition verifyAddress_begin :: "nat \<Rightarrow> Ledger \<Rightarrow> DeviceError + string" where
  "verifyAddress_begin index' s =
     (if \<not> eth s then
        Inl \<lparr>statusCode = None,
             message = ''attempted to verify address but Eth app is not connected!''\<rparr>
      else (case derivation s of
              None \<Rightarrow>
                Inl \<lparr>statusCode = None,
                     message = ''attempted to verify address for unknown derivation!''\<rparr>
            | Some d \<Rightarrow> Inr (getPath d index')))"

text \<open>
  The \<^verbatim>\<open>catch\<close> block: the error goes through the error path, then the callback is called
  with a verification error; what the callback throws there rejects the promise. \<open>calls\<close>
  are the calls made before the block was entered.
\<close>

definition verifyAddress_catch ::
  "Callback \<Rightarrow> DeviceError \<Rightarrow> cb_call list \<Rightarrow> Ledger
     \<Rightarrow> DeviceError option \<times> cb_call list \<times> Ledger" where
  "verifyAddress_catch cb err calls s =
     (let s1 = handleError err s;
          call = (Some (''verify address error: '' @ message err), None)
      in (cb call, calls @ [call], s1))"

text \<open>
  The \<^verbatim>\<open>try\<close> block after the \<^verbatim>\<open>await\<close>. Both calls of the callback stand inside it, so
  what the callback throws enters the \<^verbatim>\<open>catch\<close> block, which calls it again. The result
  is the error the promise rejects with, the calls made, and the session.
\<close>

definition verifyAddress_resume ::
  "Env \<Rightarrow> Callback \<Rightarrow> string \<Rightarrow> DeviceError + Address \<Rightarrow> Ledger
     \<Rightarrow> DeviceError option \<times> cb_call list \<times> Ledger" where
  "verifyAddress_resume env cb currentAddress res s =
     (case res of
        Inr result \<Rightarrow>
          if toLowerCase env (address result) \<noteq> toLowerCase env currentAddress then
            (let s1 = handleError \<lparr>statusCode = Some (- 1), message = ''''\<rparr> s;
                 call = (Some ''Address does not match device'', None)
             in case cb call of
                  None \<Rightarrow> (None, [call], s1)
                | Some thrown \<Rightarrow> verifyAddress_catch cb thrown [call] s1)
          else
            (let call = (None, Some True)
             in case cb call of
                  None \<Rightarrow> (None, [call], s)
                | Some thrown \<Rightarrow> verifyAddress_catch cb thrown [call] s)
      | Inl err \<Rightarrow> verifyAddress_catch cb err [] s)"

definition verifyAddress_execute ::
  "Env \<Rightarrow> nat \<Rightarrow> string \<Rightarrow> bool \<Rightarrow> Callback \<Rightarrow> Ledger \<Rightarrow> exec" where
  "verifyAddress_execute env index' currentAddress display cb s =
     (case verifyAddress_begin index' s of
        Inl e \<Rightarrow> Settled (Some e) [] s
      | Inr path \<Rightarrow>
          (case getAddress (eth_getAddress env (Some path) display True) display s of
             None \<Rightarrow> Hangs
           | Some res \<Rightarrow>
               (case verifyAddress_resume env cb currentAddress res s of
                  (rej, calls, s') \<Rightarrow> Settled rej calls s')))"

subsection \<open>The probe request of the poller\<close>

definition checkDeviceStatus_execute :: "Env \<Rightarrow> status \<Rightarrow> Ledger \<Rightarrow> exec" where
  "checkDeviceStatus_execute env lastStatus' s =
     (if lastStatus' \<noteq> status s then Settled None [] s
      else (case checkDeviceStatus (eth_getAddress env (Some probePath) False False) s of
              (Inl e, s') \<Rightarrow> Settled (Some e) [] s'
            | (Inr code, s') \<Rightarrow> Settled None [] s'))"

fun execute :: "Env \<Rightarrow> Request \<Rightarrow> Ledger \<Rightarrow> exec" where
  "execute env (DeriveLive i) s = deriveLive_execute env i s"
| "execute env (DeriveHardware targetDerivation) s = deriveHardware_execute env targetDerivation s"
| "execute env (VerifyAddress index' currentAddress display cb) s =
     verifyAddress_execute env index' currentAddress display cb s"
| "execute env (CheckDeviceStatus lastStatus') s = checkDeviceStatus_execute env lastStatus' s"

subsection \<open>Enqueuing methods\<close>

definition deriveLiveAddresses :: "Ledger \<Rightarrow> Ledger" where
  "deriveLiveAddresses s = enqueueRequests (map DeriveLive [0..<accountLimit s]) s"

definition deriveHardwareAddresses :: "Ledger \<Rightarrow> Ledger" where
  "deriveHardwareAddresses s = enqueueRequests [DeriveHardware (derivation s)] s"

definition deriveAddresses :: "Ledger \<Rightarrow> Ledger" where
  "deriveAddresses s =
     (let s1 = s\<lparr>requestQueue := rq_clear (requestQueue s)\<rparr>;
          s2 = s1\<lparr>addresses := []\<rparr>;
          s3 = emit ''update'' (updateStatus DERIVING s2)
      in if derivation s3 = Some live then deriveLiveAddresses s3
         else deriveHardwareAddresses s3)"

definition verifyAddress :: "nat \<Rightarrow> string \<Rightarrow> bool \<Rightarrow> Callback \<Rightarrow> Ledger \<Rightarrow> Ledger" where
  "verifyAddress index' currentAddress display cb s =
     enqueueRequests [VerifyAddress index' currentAddress display cb] s"

section \<open>Processing the queue\<close>

text \<open>
  The fields of the session after the basic operations: rewrite rules for the proofs
  below, and what the termination of the queue's loop rests on (no request enqueues
  another one).
\<close>

lemma emit_fields [simp]:
  "eth (emit ev s) = eth s"
  "derivation (emit ev s) = derivation s"
  "accountLimit (emit ev s) = accountLimit s"
  "requestQueue (emit ev s) = requestQueue s"
  "statusPoller (emit ev s) = statusPoller s"
  "addresses (emit ev s) = addresses s"
  "status (emit ev s) = status s"
  "emitted (emit ev s) = emitted s @ [ev]"
  by (simp_all add: emit_def)

lemma clearTimeout_fields [simp]:
  "eth (clearTimeout s) = eth s"
  "derivation (clearTimeout s) = derivation s"
  "accountLimit (clearTimeout s) = accountLimit s"
  "requestQueue (clearTimeout s) = requestQueue s"
  "statusPoller (clearTimeout s) = None"
  "addresses (clearTimeout s) = addresses s"
  "status (clearTimeout s) = status s"
  "emitted (clearTimeout s) = emitted s"
  by (simp_all add: clearTimeout_def)

lemma updateStatus_fields [simp]:
  "eth (updateStatus st s) = eth s"
  "derivation (updateStatus st s) = derivation s"
  "accountLimit (updateStatus st s) = accountLimit s"
  "requestQueue (updateStatus st s) = requestQueue s"
  "addresses (updateStatus st s) = addresses s"
  "status (updateStatus st s) = st"
  "emitted (updateStatus st s) = emitted s"
  by (simp_all add: updateStatus_def pollDeviceStatus_def clearTimeout_def Let_def)

lemma updateStatus_statusPoller:
  "statusPoller (updateStatus st s) =
     (if st = OK then Some \<lparr>frequency = 5000, lastStatus = OK\<rparr>
      else if st = LOCKED then Some \<lparr>frequency = 500, lastStatus = LOCKED\<rparr>
      else statusPoller s)"
  by (simp add: updateStatus_def pollDeviceStatus_def clearTimeout_def Let_def)

lemma close_fields [simp]:
  "eth (close s) = False"
  "derivation (close s) = derivation s"
  "accountLimit (close s) = accountLimit s"
  "requestQueue (close s) = rq_close (requestQueue s)"
  "statusPoller (close s) = None"
  "addresses (close s) = addresses s"
  "status (close s) = status s"
  "emitted (close s) = emitted s @ [''close'']"
  by (simp_all add: close_def clearTimeout_def emit_def Let_def)

lemma handleError_addresses [simp]: "addresses (handleError err s) = addresses s"
  by (simp add: handleError_def Let_def)

lemma handleError_derivation [simp]: "derivation (handleError err s) = derivation s"
  by (simp add: handleError_def Let_def)

lemma handleError_accountLimit [simp]: "accountLimit (handleError err s) = accountLimit s"
  by (simp add: handleError_def Let_def)

lemma needToOpenEthApp_not_asleep: "needToOpenEthApp err \<Longrightarrow> \<not> isDeviceAsleep err"
  by (auto simp: needToOpenEthApp_def isDeviceAsleep_def split: option.splits)

lemma handleError_pending:
  "length (pending (requestQueue (handleError err s))) \<le> length (pending (requestQueue s))"
  by (simp add: handleError_def Let_def rq_close_def)

lemma deriveLive_resume_pending:
  "length (pending (requestQueue (deriveLive_resume res s)))
     \<le> length (pending (requestQueue s))"
  by (simp add: deriveLive_resume_def Let_def handleError_pending split: sum.split)

lemma deriveHardware_resume_pending:
  "length (pending (requestQueue (deriveHardware_resume target res s)))
     \<le> length (pending (requestQueue s))"
  by (simp add: deriveHardware_resume_def Let_def handleError_pending split: sum.split)

lemma verifyAddress_catch_pending:
  "verifyAddress_catch cb err calls0 s = (rej, calls, s') \<Longrightarrow>
   length (pending (requestQueue s')) \<le> length (pending (requestQueue s))"
  using handleError_pending by (auto simp: verifyAddress_catch_def Let_def)

lemma verifyAddress_resume_pending:
  "verifyAddress_resume env cb cur res s = (rej, calls, s') \<Longrightarrow>
   length (pending (requestQueue s')) \<le> length (pending (requestQueue s))"
proof (cases res)
  case (Inl err)
  assume "verifyAddress_resume env cb cur res s = (rej, calls, s')"
  with Inl show ?thesis
    using verifyAddress_catch_pending by (simp add: verifyAddress_resume_def)
next
  case (Inr result)
  let ?s1 = "handleError \<lparr>statusCode = Some (- 1), message = ''''\<rparr> s"
  have s1: "length (pending (requestQueue ?s1)) \<le> length (pending (requestQueue s))"
    by (rule handleError_pending)
  assume "verifyAddress_resume env cb cur res s = (rej, calls, s')"
  with Inr have "s' = s \<or> s' = ?s1
      \<or> (\<exists>e c. verifyAddress_catch cb e c s = (rej, calls, s'))
      \<or> (\<exists>e c. verifyAddress_catch cb e c ?s1 = (rej, calls, s'))"
    by (auto simp: verifyAddress_resume_def Let_def split: if_splits option.splits)
  then show ?thesis
  proof (elim disjE exE)
    assume "s' = s"
    then show ?thesis by simp
  next
    assume "s' = ?s1"
    with s1 show ?thesis by simp
  next
    fix e c
    assume "verifyAddress_catch cb e c s = (rej, calls, s')"
    then show ?thesis by (rule verifyAddress_catch_pending)
  next
    fix e c
    assume "verifyAddress_catch cb e c ?s1 = (rej, calls, s')"
    then have "length (pending (requestQueue s')) \<le> length (pending (requestQueue ?s1))"
      by (rule verifyAddress_catch_pending)
    with s1 show ?thesis by (rule le_trans [rotated])
  qed
qed

lemma checkDeviceStatus_pending:
  "checkDeviceStatus r s = (res, s') \<Longrightarrow>
   length (pending (requestQueue s')) \<le> length (pending (requestQueue s))"
  using handleError_pending
  by (auto simp: checkDeviceStatus_def checkDeviceStatus_then_def clearTimeout_def
      split: prod.splits if_splits)

lemma execute_pending:
  "execute env req s = Settled e calls s' \<Longrightarrow>
   length (pending (requestQueue s')) \<le> length (pending (requestQueue s))"
proof (cases req)
  case (DeriveLive i)
  assume "execute env req s = Settled e calls s'"
  with DeriveLive show ?thesis
    using handleError_pending deriveLive_resume_pending
    by (auto simp: deriveLive_execute_def split: sum.splits option.splits)
next
  case (DeriveHardware t)
  assume "execute env req s = Settled e calls s'"
  with DeriveHardware show ?thesis
    using handleError_pending deriveHardware_resume_pending
    by (auto simp: deriveHardware_execute_def split: sum.splits option.splits)
next
  case (VerifyAddress i cur d cb)
  assume "execute env req s = Settled e calls s'"
  with VerifyAddress show ?thesis
    using verifyAddress_resume_pending
    by (auto simp: verifyAddress_execute_def split: sum.splits option.splits prod.splits)
next
  case (CheckDeviceStatus l)
  assume "execute env req s = Settled e calls s'"
  with CheckDeviceStatus show ?thesis
    using checkDeviceStatus_pending
    by (auto simp: checkDeviceStatus_execute_def
        split: sum.splits option.splits prod.splits if_splits)
qed

text \<open>
  Modelled from the spec: the processing discipline of \<^verbatim>\<open>RequestQueue\<close>. While the queue
  runs, requests execute strictly in FIFO order; the next request starts only once the
  current one has settled, whether it fulfilled or rejected. \<open>dequeue\<close> takes the head of
  the pending requests of a running queue.
\<close>

definition dequeue :: "Ledger \<Rightarrow> (Request \<times> Ledger) option" where
  "dequeue s =
     (case pending (requestQueue s) of
        [] \<Rightarrow> None
      | req # rest \<Rightarrow>
          if running (requestQueue s)
          then Some (req, s\<lparr>requestQueue := (requestQueue s)\<lparr>pending := rest\<rparr>\<rparr>)
          else None)"

lemma dequeue_pending:
  "dequeue s = Some (req, s1) \<Longrightarrow>
   length (pending (requestQueue s1)) < length (pending (requestQueue s))"
  by (auto simp: dequeue_def split: list.splits if_splits)

text \<open>
  Modelled from the spec: one step of the queue. The request at the head of a running
  queue is started and runs until its promise settles; a queue with nothing to start
  leaves the session as it is.
\<close>

definition runNext :: "Env \<Rightarrow> Ledger \<Rightarrow> exec" where
  "runNext env s =
     (case dequeue s of
        None \<Rightarrow> Settled None [] s
      | Some (req, s1) \<Rightarrow> execute env req s1)"

text \<open>
  Modelled from the spec: the queue runs until nothing is pending or it was closed. The
  result is \<open>None\<close> when a request never settles, since the queue then waits for it
  for ever.
\<close>

function drain :: "Env \<Rightarrow> Ledger \<Rightarrow> Ledger option" where
  "drain env s =
     (case dequeue s of
        None \<Rightarrow> Some s
      | Some (req, s1) \<Rightarrow>
          (case execute env req s1 of
             Hangs \<Rightarrow> None
           | Settled e calls s2 \<Rightarrow> drain env s2))"
  by pat_completeness auto
termination
proof (relation "measure (\<lambda>(env, s). length (pending (requestQueue s)))")
  show "wf (measure (\<lambda>(env, s). length (pending (requestQueue s))))"
    by simp
next
  fix env s x2 req s1 e calls s2
  assume "dequeue s = Some x2" and "(req, s1) = x2"
    and "execute env req s1 = Settled e calls s2"
  then show "((env, s2), (env, s)) \<in> measure (\<lambda>(env, s). length (pending (requestQueue s)))"
    using dequeue_pending [of s req s1] execute_pending [of env req s1 e calls s2] by auto
qed

declare drain.simps [simp del]

section \<open>Connecting\<close>

text \<open>The \<^verbatim>\<open>catch\<close> block of \<^verbatim>\<open>connect\<close>.\<close>

definition connect_catch :: "DeviceError \<Rightarrow> Ledger \<Rightarrow> Ledger" where
  "connect_catch err s =
     (let s1 = handleError err s in
      if status s1 \<noteq> LOCKED then close s1 else s1)"

text \<open>
  \<^verbatim>\<open>connect\<close>: the app configuration is fetched, then the device probed, both outside the
  queue; a ready session derives its addresses. A rejected promise inside the \<^verbatim>\<open>try\<close>
  enters the \<^verbatim>\<open>catch\<close> block.
\<close>

definition connect :: "Env \<Rightarrow> Ledger \<Rightarrow> Ledger" where
  "connect env s =
     (let s1 = emit ''update'' (updateStatus INITIAL s) in
      case getAppConfiguration (eth_getAppConfiguration env) s1 of
        Inl err \<Rightarrow> connect_catch err s1
      | Inr config \<Rightarrow>
          (case checkDeviceStatus (eth_getAddress env (Some probePath) False False) s1 of
             (Inl err, s2) \<Rightarrow> connect_catch err s2
           | (Inr code, s2) \<Rightarrow> if isReady s2 then deriveAddresses s2 else s2))"

section \<open>Example sessions, errors and devices\<close>

text \<open>
  Errors as the device SDK raises them. The example devices below are only ever asked
  to lower ASCII strings, so their \<^verbatim>\<open>toLowerCase\<close> is \<open>lowerAZ\<close>.
\<close>

definition asleep :: DeviceError where
  "asleep = \<lparr>statusCode = Some 27404, message = ''''\<rparr>"

definition wrongApp :: DeviceError where
  "wrongApp = \<lparr>statusCode = Some 27904, message = ''''\<rparr>"

definition disconnected :: DeviceError where
  "disconnected = \<lparr>statusCode = None, message = ''DisconnectedDevice''\<rparr>"

text \<open>A connected session with the slow poller, a locked one with the fast poller, and
  a session that \<^verbatim>\<open>connect\<close> has just set to \<^verbatim>\<open>STATUS.INITIAL\<close>.\<close>

definition session_ok :: Ledger where
  "session_ok =
     \<lparr>eth = True, derivation = Some live, accountLimit = 5,
      requestQueue = \<lparr>pending = [], running = True\<rparr>,
      statusPoller = Some \<lparr>frequency = 5000, lastStatus = OK\<rparr>,
      addresses = [], status = OK, emitted = []\<rparr>"

definition session_locked :: Ledger where
  "session_locked =
     \<lparr>eth = True, derivation = Some live, accountLimit = 5,
      requestQueue = \<lparr>pending = [], running = True\<rparr>,
      statusPoller = Some \<lparr>frequency = 500, lastStatus = LOCKED\<rparr>,
      addresses = [], status = LOCKED, emitted = []\<rparr>"

definition session_connecting :: Ledger where
  "session_connecting =
     \<lparr>eth = True, derivation = Some live, accountLimit = 5,
      requestQueue = \<lparr>pending = [], running = True\<rparr>,
      statusPoller = None,
      addresses = [], status = INITIAL, emitted = [''update'']\<rparr>"

definition someAddress :: Address where
  "someAddress = \<lparr>address = ''0xabcd'', publicKey = ''04aa'', chainCode = None\<rparr>"

text \<open>A device that answers the configuration request and rejects every address
  request with the code of a sleeping device.\<close>

definition env_asleep :: Env where
  "env_asleep =
     \<lparr>eth_getAddress = (\<lambda>path display chain. Rejects 15 asleep),
      eth_getAppConfiguration = Resolves 30 \<lparr>version = Some ''1.9.2''\<rparr>,
      deriveHDAccounts = (\<lambda>key chain. Inr []),
      toLowerCase = lowerAZ\<rparr>"

text \<open>The account table of an example device, one address for each path of the \<^verbatim>\<open>live\<close>
  derivation, and the device that answers from it.\<close>

definition live_accounts :: "(string \<times> string) list" where
  "live_accounts =
     [(getPath live 0, ''0xa0''), (getPath live 1, ''0xa1''), (getPath live 2, ''0xa2''),
      (getPath live 3, ''0xa3''), (getPath live 4, ''0xa4'')]"

definition env_accounts :: Env where
  "env_accounts =
     \<lparr>eth_getAddress = (\<lambda>path display chain.
        case path of
          None \<Rightarrow> Rejects 20 disconnected
        | Some p \<Rightarrow>
            (case map_of live_accounts p of
               None \<Rightarrow>
                 Resolves 20 \<lparr>address = ''0xffff'', publicKey = ''04aa'', chainCode = Some ''c0de''\<rparr>
             | Some a \<Rightarrow> Resolves 20 \<lparr>address = a, publicKey = ''04aa'', chainCode = None\<rparr>)),
      eth_getAppConfiguration = Resolves 30 \<lparr>version = Some ''1.9.2''\<rparr>,
      deriveHDAccounts = (\<lambda>key chain. Inr [''0xb0'', ''0xb1'']),
      toLowerCase = lowerAZ\<rparr>"

text \<open>The same device, except that the call for index 2 rejects with the given error.\<close>

definition env_index2 :: "DeviceError \<Rightarrow> Env" where
  "env_index2 e =
     env_accounts\<lparr>eth_getAddress := (\<lambda>path display chain.
        if path = Some (getPath live 2) then Rejects 20 e
        else eth_getAddress env_accounts path display chain)\<rparr>"

text \<open>A device whose every address is \<^verbatim>\<open>0xabcd\<close>.\<close>

definition env_abcd :: Env where
  "env_abcd =
     \<lparr>eth_getAddress = (\<lambda>path display chain.
        Resolves 25 \<lparr>address = ''0xabcd'', publicKey = ''04aa'', chainCode = Some ''c0de''\<rparr>),
      eth_getAppConfiguration = Resolves 30 \<lparr>version = Some ''1.9.2''\<rparr>,
      deriveHDAccounts = (\<lambda>key chain. Inr []),
      toLowerCase = lowerAZ\<rparr>"

text \<open>A device that never answers an address request.\<close>

definition env_silent :: Env where
  "env_silent =
     \<lparr>eth_getAddress = (\<lambda>path display chain. Never),
      eth_getAppConfiguration = Resolves 30 \<lparr>version = Some ''1.9.2''\<rparr>,
      deriveHDAccounts = (\<lambda>key chain. Inr []),
      toLowerCase = lowerAZ\<rparr>"

text \<open>A callback that returns, and one that throws on whatever it is called with.\<close>

definition cb_returns :: Callback where
  "cb_returns = (\<lambda>call. None)"

definition cb_throws :: Callback where
  "cb_throws = (\<lambda>call. Some \<lparr>statusCode = None, message = ''callback failed''\<rparr>)"

definition session_legacy :: Ledger where
  "session_legacy = session_ok\<lparr>derivation := Some legacy\<rparr>"

section \<open>Derivation triggered again while a task is executing\<close>

text \<open>
  \<^verbatim>\<open>deriveAddresses\<close> is called; the queue starts the first task, which passes its guards
  and awaits the device; \<^verbatim>\<open>deriveAddresses\<close> is called a second time; only then the
  device call of the first task settles and the task continues. For the bulk strategy
  the result is the address list right before and right after the first task continues.
\<close>

definition retrigger_hardware :: "Env \<Rightarrow> Ledger \<Rightarrow> (string list \<times> string list) option" where
  "retrigger_hardware env s =
     (case dequeue (deriveAddresses s) of
        Some (DeriveHardware targetDerivation, s1) \<Rightarrow>
          (case deriveHardware_begin s1 of
             Inl e \<Rightarrow> None
           | Inr d \<Rightarrow>
               (case await (eth_deriveAddresses env d) of
                  None \<Rightarrow> None
                | Some res \<Rightarrow>
                    (let s2 = deriveAddresses s1;
                         s3 = deriveHardware_resume targetDerivation res s2
                     in Some (addresses s2, addresses s3))))
      | _ \<Rightarrow> None)"

text \<open>
  For the per-index strategy the queue then runs the tasks of the second call; the
  result is the final address list.
\<close>

definition retrigger_live :: "Env \<Rightarrow> Ledger \<Rightarrow> string list option" where
  "retrigger_live env s =
     (case dequeue (deriveAddresses s) of
        Some (DeriveLive i, s1) \<Rightarrow>
          (case deriveLive_begin i s1 of
             Inl e \<Rightarrow> None
           | Inr path \<Rightarrow>
               (case await (eth_getAddress env (Some path) False False) of
                  None \<Rightarrow> None
                | Some res \<Rightarrow>
                    (let s2 = deriveAddresses s1;
                         s3 = deriveLive_resume res s2
                     in map_option addresses (drain env s3))))
      | _ \<Rightarrow> None)"

text \<open>
  A running, connected session in per-index derivation, with the requests it has pending
  and the addresses it has collected.
\<close>

definition deriving :: "Ledger \<Rightarrow> Request list \<Rightarrow> string list \<Rightarrow> bool" where
  "deriving s reqs addrs =
     (eth s \<and> derivation s = Some live \<and> running (requestQueue s)
      \<and> pending (requestQueue s) = reqs \<and> addresses s = addrs)"

lemmas example_defs =
  asleep_def wrongApp_def disconnected_def session_ok_def session_locked_def
  session_connecting_def someAddress_def env_asleep_def

section \<open>Properties of the error classifier\<close>

lemma getStatusForError_code:
  "getStatusForError \<lparr>statusCode = Some c, message = m\<rparr> =
     (if c = 27404 then LOCKED
      else if c = 27904 \<or> c = 27906 \<or> c = 25873 \<or> c = 25871 then WRONG_APP
      else NEEDS_RECONNECTION)"
  by (simp add: getStatusForError_def needToOpenEthApp_def isDeviceAsleep_def)

lemma getStatusForError_undefined:
  "getStatusForError \<lparr>statusCode = None, message = m\<rparr> = NEEDS_RECONNECTION"
  by (simp add: getStatusForError_def needToOpenEthApp_def isDeviceAsleep_def)

text \<open>
  Claim C2. The classifier is a total function of the error code: 27404 gives
  \<open>LOCKED\<close>; 27904, 27906, 25873 and 25871 give \<open>WRONG_APP\<close>; every other code, the
  synthetic timeout code \<open>-1\<close> among them, gives \<open>NEEDS_RECONNECTION\<close>. The result depends
  on the code alone (not on the message), and an error without a code is classified as
  \<open>NEEDS_RECONNECTION\<close> too.
\<close>

theorem getStatusForError_total:
  "getStatusForError err =
     (case statusCode err of
        None \<Rightarrow> NEEDS_RECONNECTION
      | Some c \<Rightarrow>
          if c = 27404 then LOCKED
          else if c \<in> {27904, 27906, 25873, 25871} then WRONG_APP
          else NEEDS_RECONNECTION)"
  by (simp add: getStatusForError_def needToOpenEthApp_def isDeviceAsleep_def
      split: option.split)

theorem getStatusForError_total_witness:
  "getStatusForError \<lparr>statusCode = Some 27404, message = ''''\<rparr> = LOCKED
   \<and> getStatusForError \<lparr>statusCode = Some 27904, message = ''''\<rparr> = WRONG_APP
   \<and> getStatusForError \<lparr>statusCode = Some 27906, message = ''''\<rparr> = WRONG_APP
   \<and> getStatusForError \<lparr>statusCode = Some 25873, message = ''''\<rparr> = WRONG_APP
   \<and> getStatusForError \<lparr>statusCode = Some 25871, message = ''''\<rparr> = WRONG_APP
   \<and> getStatusForError \<lparr>statusCode = Some (- 1), message = ''''\<rparr> = NEEDS_RECONNECTION
   \<and> getStatusForError \<lparr>statusCode = Some 0, message = ''''\<rparr> = NEEDS_RECONNECTION"
  using getStatusForError_total [of "\<lparr>statusCode = Some 27404, message = ''''\<rparr>"]
    getStatusForError_total [of "\<lparr>statusCode = Some 27904, message = ''''\<rparr>"]
    getStatusForError_total [of "\<lparr>statusCode = Some 27906, message = ''''\<rparr>"]
    getStatusForError_total [of "\<lparr>statusCode = Some 25873, message = ''''\<rparr>"]
    getStatusForError_total [of "\<lparr>statusCode = Some 25871, message = ''''\<rparr>"]
    getStatusForError_total [of "\<lparr>statusCode = Some (- 1), message = ''''\<rparr>"]
    getStatusForError_total [of "\<lparr>statusCode = Some 0, message = ''''\<rparr>"]
  by simp

section \<open>Properties of the error-handling entry point\<close>

lemma handleError_lock_count:
  "count_list (emitted (handleError err s)) ''lock'' =
     count_list (emitted s) ''lock''
     + (if status s \<noteq> LOCKED \<and> status (handleError err s) = LOCKED then 1 else 0)"
  by (simp add: handleError_def Let_def getStatusForError_def)

lemma handleErrors_lock_count:
  "count_list (emitted (handleErrors errs s)) ''lock'' =
     count_list (emitted s) ''lock'' + lockEntries errs s"
  by (induction errs arbitrary: s) (simp_all add: handleError_lock_count)

text \<open>
  Claim C3. An error with the code of a sleeping device, handled in a status other than
  \<open>LOCKED\<close>, sets the status to \<open>LOCKED\<close> and emits \<^verbatim>\<open>lock\<close> and nothing else; handled
  while the status is \<open>LOCKED\<close> already, it leaves the session as it is, so no event is
  emitted. Along every sequence of handled errors the number of \<^verbatim>\<open>lock\<close> events emitted
  equals the number of entries into \<open>LOCKED\<close>.
\<close>

theorem handleError_lock_once:
  "(isDeviceAsleep err \<and> status s \<noteq> LOCKED \<longrightarrow>
      status (handleError err s) = LOCKED
      \<and> emitted (handleError err s) = emitted s @ [''lock''])
   \<and> (isDeviceAsleep err \<and> status s = LOCKED \<longrightarrow> handleError err s = s)
   \<and> count_list (emitted (handleErrors errs s)) ''lock'' =
       count_list (emitted s) ''lock'' + lockEntries errs s"
  by (simp add: handleErrors_lock_count)
    (simp add: handleError_def getStatusForError_def needToOpenEthApp_def isDeviceAsleep_def
      split: option.splits)

theorem handleError_lock_once_witness:
  "isDeviceAsleep asleep \<and> status session_ok \<noteq> LOCKED
   \<and> status (handleError asleep session_ok) = LOCKED
   \<and> emitted (handleError asleep session_ok) = [''lock'']
   \<and> handleError asleep (handleError asleep session_ok) = handleError asleep session_ok
   \<and> lockEntries [asleep, asleep, asleep] session_ok = 1
   \<and> count_list (emitted (handleErrors [asleep, asleep, asleep] session_ok)) ''lock'' = 1
   \<and> lockEntries [asleep, wrongApp, asleep] session_ok = 2
   \<and> count_list (emitted (handleErrors [asleep, wrongApp, asleep] session_ok)) ''lock'' = 2"
  using handleError_lock_once [of asleep session_ok "[asleep, asleep, asleep]"]
    handleError_lock_once [of asleep "handleError asleep session_ok" "[]"]
    handleError_lock_once [of asleep session_ok "[asleep, wrongApp, asleep]"]
  by (simp add: asleep_def wrongApp_def session_ok_def isDeviceAsleep_def needToOpenEthApp_def
      getStatusForError_def handleError_def)

text \<open>
  Claim C7, as the code has it. An error of a sleeping device handled outside \<open>LOCKED\<close>
  sets the status to \<open>LOCKED\<close> and emits \<^verbatim>\<open>lock\<close> only (no \<^verbatim>\<open>update\<close>), and the session
  stays open. An error classified \<open>WRONG_APP\<close> in another status sets the status, emits
  \<^verbatim>\<open>update\<close> and leaves the session open: transport and queue are untouched. An error
  classified \<open>NEEDS_RECONNECTION\<close> in another status sets the status, emits \<^verbatim>\<open>update\<close> and
  closes the session: \<^verbatim>\<open>close\<close> is emitted, the transport released, the queue stopped
  and emptied, the poller cleared. An error whose classification is the current status
  changes nothing. The \<^verbatim>\<open>catch\<close> block of \<^verbatim>\<open>connect\<close> closes the session after handling
  the error unless the status is then \<open>LOCKED\<close>.
\<close>

theorem handleError_transitions:
  "(isDeviceAsleep err \<and> status s \<noteq> LOCKED \<longrightarrow>
      status (handleError err s) = LOCKED
      \<and> emitted (handleError err s) = emitted s @ [''lock'']
      \<and> eth (handleError err s) = eth s
      \<and> requestQueue (handleError err s) = requestQueue s)
   \<and> (getStatusForError err = WRONG_APP \<and> status s \<noteq> WRONG_APP \<longrightarrow>
      status (handleError err s) = WRONG_APP
      \<and> emitted (handleError err s) = emitted s @ [''update'']
      \<and> eth (handleError err s) = eth s
      \<and> requestQueue (handleError err s) = requestQueue s)
   \<and> (getStatusForError err = NEEDS_RECONNECTION \<and> status s \<noteq> NEEDS_RECONNECTION \<longrightarrow>
      handleError err s = close (emit ''update'' (updateStatus NEEDS_RECONNECTION s))
      \<and> status (handleError err s) = NEEDS_RECONNECTION
      \<and> emitted (handleError err s) = emitted s @ [''update'', ''close'']
      \<and> \<not> eth (handleError err s)
      \<and> requestQueue (handleError err s) = \<lparr>pending = [], running = False\<rparr>
      \<and> statusPoller (handleError err s) = None)
   \<and> (getStatusForError err = status s \<longrightarrow> handleError err s = s)
   \<and> (status (handleError err s) \<noteq> LOCKED \<longrightarrow>
      connect_catch err s = close (handleError err s)
      \<and> \<not> eth (connect_catch err s)
      \<and> requestQueue (connect_catch err s) = \<lparr>pending = [], running = False\<rparr>)
   \<and> (status (handleError err s) = LOCKED \<longrightarrow> connect_catch err s = handleError err s)"
  apply (intro conjI impI)
  apply (simp_all add: connect_catch_def Let_def)
  apply (simp_all add: handleError_def Let_def getStatusForError_def rq_close_def
      needToOpenEthApp_not_asleep split: if_splits)
  done

theorem handleError_transitions_witness:
  "isDeviceAsleep asleep \<and> status session_ok \<noteq> LOCKED
   \<and> status (handleError asleep session_ok) = LOCKED
   \<and> emitted (handleError asleep session_ok) = [''lock'']
   \<and> getStatusForError wrongApp = WRONG_APP \<and> status session_ok \<noteq> WRONG_APP
   \<and> status (handleError wrongApp session_ok) = WRONG_APP
   \<and> emitted (handleError wrongApp session_ok) = [''update'']
   \<and> eth (handleError wrongApp session_ok)
   \<and> getStatusForError disconnected = NEEDS_RECONNECTION
   \<and> status session_ok \<noteq> NEEDS_RECONNECTION
   \<and> status (handleError disconnected session_ok) = NEEDS_RECONNECTION
   \<and> emitted (handleError disconnected session_ok) = [''update'', ''close'']
   \<and> \<not> eth (handleError disconnected session_ok)
   \<and> getStatusForError asleep = status session_locked
   \<and> handleError asleep session_locked = session_locked
   \<and> status (handleError wrongApp session_connecting) \<noteq> LOCKED
   \<and> \<not> eth (connect_catch wrongApp session_connecting)
   \<and> status (handleError asleep session_connecting) = LOCKED
   \<and> connect_catch asleep session_connecting = handleError asleep session_connecting"
  using handleError_transitions [of asleep session_ok]
    handleError_transitions [of wrongApp session_ok]
    handleError_transitions [of disconnected session_ok]
    handleError_transitions [of asleep session_locked]
    handleError_transitions [of wrongApp session_connecting]
    handleError_transitions [of asleep session_connecting]
  by (simp add: example_defs getStatusForError_def needToOpenEthApp_def isDeviceAsleep_def)

text \<open>
  Claim C7 as stated fails twice on a connected session in status \<open>OK\<close>. The code 27904
  leads to \<open>WRONG_APP\<close>, a status other than \<open>LOCKED\<close>, \<open>INITIAL\<close> and \<open>OK\<close>, yet no
  \<^verbatim>\<open>close\<close> is emitted, the transport stays open and the queue and the poller keep
  running. The code 27404 changes the status to \<open>LOCKED\<close>, yet no \<^verbatim>\<open>update\<close> is emitted.
\<close>

theorem handleError_transitions_counterexample:
  "getStatusForError wrongApp \<noteq> status session_ok
   \<and> status (handleError wrongApp session_ok) = WRONG_APP
   \<and> emitted (handleError wrongApp session_ok) = [''update'']
   \<and> eth (handleError wrongApp session_ok)
   \<and> running (requestQueue (handleError wrongApp session_ok))
   \<and> statusPoller (handleError wrongApp session_ok) = Some \<lparr>frequency = 5000, lastStatus = OK\<rparr>
   \<and> getStatusForError asleep \<noteq> status session_ok
   \<and> status (handleError asleep session_ok) = LOCKED
   \<and> emitted (handleError asleep session_ok) = [''lock'']"
  by (simp add: example_defs getStatusForError_def needToOpenEthApp_def isDeviceAsleep_def
      handleError_def updateStatus_statusPoller)

section \<open>Properties of the status update and the poller\<close>

text \<open>
  Claim C6, as the code has it. After \<^verbatim>\<open>updateStatus(OK)\<close> the handle holds a timer of
  5000 ms, after \<^verbatim>\<open>updateStatus(LOCKED)\<close> one of 500 ms; \<^verbatim>\<open>updateStatus\<close> of any other
  status leaves the handle as it was: no timer is started and a pending one is not
  cleared. A pending timer that fires schedules the next one with its own frequency,
  and it enqueues a probe unless the tail of the queue is a probe already.
\<close>

theorem updateStatus_poller:
  "statusPoller (updateStatus OK s) = Some \<lparr>frequency = 5000, lastStatus = OK\<rparr>
   \<and> statusPoller (updateStatus LOCKED s) = Some \<lparr>frequency = 500, lastStatus = LOCKED\<rparr>
   \<and> (st \<noteq> OK \<and> st \<noteq> LOCKED \<longrightarrow> statusPoller (updateStatus st s) = statusPoller s)
   \<and> (statusPoller s = Some t \<longrightarrow>
        statusPoller (timerFires s) = Some \<lparr>frequency = frequency t, lastStatus = status s\<rparr>)
   \<and> (statusPoller s = Some t \<and> pending (requestQueue s) = [] \<longrightarrow>
        pending (requestQueue (timerFires s)) = [CheckDeviceStatus (lastStatus t)])"
  by (simp add: updateStatus_statusPoller timerFires_def pollTick_def pollDeviceStatus_def
      enqueueRequests_def rq_add_def rq_peekBack_def Let_def split: option.split)

theorem updateStatus_poller_witness:
  "statusPoller (updateStatus OK session_locked) = Some \<lparr>frequency = 5000, lastStatus = OK\<rparr>
   \<and> statusPoller (updateStatus LOCKED session_ok) = Some \<lparr>frequency = 500, lastStatus = LOCKED\<rparr>
   \<and> DERIVING \<noteq> OK \<and> DERIVING \<noteq> LOCKED
   \<and> statusPoller (updateStatus DERIVING session_ok) = statusPoller session_ok
   \<and> statusPoller (updateStatus DERIVING session_connecting) = None
   \<and> statusPoller (updateStatus OK session_locked)
        = Some \<lparr>frequency = 5000, lastStatus = OK\<rparr>
   \<and> pending (requestQueue (updateStatus OK session_locked)) = []
   \<and> statusPoller (timerFires (updateStatus OK session_locked))
        = Some \<lparr>frequency = 5000, lastStatus = OK\<rparr>
   \<and> pending (requestQueue (timerFires (updateStatus OK session_locked)))
        = [CheckDeviceStatus OK]"
  using updateStatus_poller [where s = session_locked and st = DERIVING]
    updateStatus_poller [where s = session_ok and st = DERIVING]
    updateStatus_poller [where s = session_connecting and st = DERIVING]
    updateStatus_poller [where s = "updateStatus OK session_locked"
      and t = "\<lparr>frequency = 5000, lastStatus = OK\<rparr>"]
  by (simp add: session_connecting_def session_locked_def updateStatus_statusPoller)

text \<open>
  Claim C6 as stated fails for \<^verbatim>\<open>updateStatus(WRONG_APP)\<close> on a connected session in
  status \<open>OK\<close>: the 5000 ms timer stays pending, and when it fires it enqueues a probe and
  schedules the next tick.
\<close>

theorem updateStatus_poller_counterexample:
  "WRONG_APP \<noteq> OK \<and> WRONG_APP \<noteq> LOCKED
   \<and> statusPoller (updateStatus WRONG_APP session_ok)
        = Some \<lparr>frequency = 5000, lastStatus = OK\<rparr>
   \<and> statusPoller (updateStatus WRONG_APP session_ok) \<noteq> None
   \<and> pending (requestQueue (timerFires (updateStatus WRONG_APP session_ok)))
        = [CheckDeviceStatus OK]
   \<and> statusPoller (timerFires (updateStatus WRONG_APP session_ok))
        = Some \<lparr>frequency = 5000, lastStatus = WRONG_APP\<rparr>"
  by (simp add: updateStatus_statusPoller session_ok_def timerFires_def pollTick_def
      rq_peekBack_def enqueueRequests_def rq_add_def pollDeviceStatus_def)

section \<open>Properties of the liveness probe\<close>

text \<open>
  Claim C4. When the probe resolves with code 0 while the status is \<open>LOCKED\<close>, the
  pending timer of the poller is cleared, the status becomes \<open>OK\<close> (which schedules the
  5000 ms poller of that status) and exactly one event, \<^verbatim>\<open>unlock\<close>, is emitted; in any
  other status the session is left as it is, so there is no transition and no event.
\<close>

theorem checkDeviceStatus_success:
  "checkDeviceStatus_check r s = 0 \<longrightarrow>
     (status s = LOCKED \<longrightarrow>
        checkDeviceStatus r s = (Inr 0, emit ''unlock'' (updateStatus OK (clearTimeout s)))
        \<and> statusPoller (clearTimeout s) = None
        \<and> statusPoller (snd (checkDeviceStatus r s))
             = Some \<lparr>frequency = 5000, lastStatus = OK\<rparr>
        \<and> status (snd (checkDeviceStatus r s)) = OK
        \<and> emitted (snd (checkDeviceStatus r s)) = emitted s @ [''unlock''])
     \<and> (status s \<noteq> LOCKED \<longrightarrow> checkDeviceStatus r s = (Inr 0, s))"
  by (simp add: checkDeviceStatus_def checkDeviceStatus_then_def updateStatus_statusPoller)

theorem checkDeviceStatus_success_witness:
  "checkDeviceStatus_check (Resolves 40 someAddress) session_locked = 0
   \<and> status session_locked = LOCKED
   \<and> statusPoller session_locked = Some \<lparr>frequency = 500, lastStatus = LOCKED\<rparr>
   \<and> statusPoller (clearTimeout session_locked) = None
   \<and> statusPoller (snd (checkDeviceStatus (Resolves 40 someAddress) session_locked))
        = Some \<lparr>frequency = 5000, lastStatus = OK\<rparr>
   \<and> status (snd (checkDeviceStatus (Resolves 40 someAddress) session_locked)) = OK
   \<and> emitted (snd (checkDeviceStatus (Resolves 40 someAddress) session_locked)) = [''unlock'']
   \<and> checkDeviceStatus_check (Resolves 40 someAddress) session_ok = 0
   \<and> status session_ok \<noteq> LOCKED
   \<and> checkDeviceStatus (Resolves 40 someAddress) session_ok = (Inr 0, session_ok)"
  using checkDeviceStatus_success [of "Resolves 40 someAddress" session_locked]
    checkDeviceStatus_success [of "Resolves 40 someAddress" session_ok]
  by (simp add: checkDeviceStatus_check_def session_locked_def session_ok_def
      updateStatus_statusPoller)

text \<open>
  Claim C10. The promise of \<^verbatim>\<open>checkDeviceStatus\<close> is always fulfilled, with the code of
  the probe: 0 when the device call returns within 3000 ms (or when there is no app to
  call), the error's status code when the call throws within 3000 ms an error that has
  one (a code that is not 0), \<open>-1\<close> when it throws an error without a code, and \<open>-1\<close>
  when nothing settles within 3000 ms. So in \<^verbatim>\<open>connect\<close>, once the app configuration was
  fetched, the \<^verbatim>\<open>catch\<close> block is never entered: the session after the probe either
  derives its addresses or is left as the probe's handler put it.
\<close>

theorem checkDeviceStatus_never_rejects:
  "fst (checkDeviceStatus r s) = Inr (checkDeviceStatus_check r s)
   \<and> (eth s \<and> r = Resolves t a \<and> t < 3000 \<longrightarrow> checkDeviceStatus_check r s = 0)
   \<and> (eth s \<and> r = Rejects t e \<and> t < 3000 \<and> statusCode e = Some c \<and> c \<noteq> 0 \<longrightarrow>
        checkDeviceStatus_check r s = c)
   \<and> (eth s \<and> r = Rejects t e \<and> t < 3000 \<and> (statusCode e = None \<or> statusCode e = Some 0) \<longrightarrow>
        checkDeviceStatus_check r s = - 1)
   \<and> (eth s \<and> (r = Never \<or> (r = Resolves t a \<or> r = Rejects t e) \<and> 3000 \<le> t) \<longrightarrow>
        checkDeviceStatus_check r s = - 1)
   \<and> (\<not> eth s \<longrightarrow> checkDeviceStatus_check r s = 0)
   \<and> (getAppConfiguration (eth_getAppConfiguration env)
         (emit ''update'' (updateStatus INITIAL s)) = Inr config \<longrightarrow>
        connect env s =
          (let s2 = snd (checkDeviceStatus (eth_getAddress env (Some probePath) False False)
                          (emit ''update'' (updateStatus INITIAL s)))
           in if isReady s2 then deriveAddresses s2 else s2))"
  by (auto simp: checkDeviceStatus_def checkDeviceStatus_then_def checkDeviceStatus_check_def
      connect_def Let_def split: prod.splits)

theorem checkDeviceStatus_never_rejects_witness:
  "eth session_ok
   \<and> fst (checkDeviceStatus (Rejects 15 asleep) session_ok) = Inr 27404
   \<and> fst (checkDeviceStatus (Rejects 15 disconnected) session_ok) = Inr (- 1)
   \<and> fst (checkDeviceStatus Never session_ok) = Inr (- 1)
   \<and> fst (checkDeviceStatus (Resolves 5000 someAddress) session_ok) = Inr (- 1)
   \<and> fst (checkDeviceStatus (Resolves 40 someAddress) session_ok) = Inr 0
   \<and> \<not> eth constructor
   \<and> fst (checkDeviceStatus Never constructor) = Inr 0
   \<and> getAppConfiguration (eth_getAppConfiguration env_asleep)
        (emit ''update'' (updateStatus INITIAL (open_session constructor)))
      = Inr \<lparr>version = Some ''1.9.2''\<rparr>
   \<and> status (connect env_asleep (open_session constructor)) = LOCKED
   \<and> eth (connect env_asleep (open_session constructor))
   \<and> emitted (connect env_asleep (open_session constructor)) = [''update'', ''lock'']"
  using
    checkDeviceStatus_never_rejects [where r = "Rejects 15 asleep" and s = session_ok
      and t = 15 and e = asleep and c = 27404]
    checkDeviceStatus_never_rejects [where r = "Rejects 15 disconnected" and s = session_ok
      and t = 15 and e = disconnected]
    checkDeviceStatus_never_rejects [where r = Never and s = session_ok]
    checkDeviceStatus_never_rejects [where r = "Resolves 5000 someAddress" and s = session_ok
      and t = 5000 and a = someAddress]
    checkDeviceStatus_never_rejects [where r = "Resolves 40 someAddress" and s = session_ok
      and t = 40 and a = someAddress]
    checkDeviceStatus_never_rejects [where r = Never and s = constructor]
    checkDeviceStatus_never_rejects [where env = env_asleep and s = "open_session constructor"
      and config = "\<lparr>version = Some ''1.9.2''\<rparr>" and r = Never]
  by (simp add: example_defs constructor_def open_session_def rq_start_def
      getAppConfiguration_def isReady_def checkDeviceStatus_def checkDeviceStatus_then_def
      checkDeviceStatus_check_def handleError_def isDeviceAsleep_def)

section \<open>Properties of the guarded app-configuration fetch\<close>

text \<open>
  Claim C9, as the code has it. When the 1000 ms timer fires before the device call
  settles, the fetch rejects with the timer's error. In status \<open>INITIAL\<close> its code is
  27904, which the classifier maps to \<open>WRONG_APP\<close>; in every other status its code is
  \<open>-1\<close>, which the classifier maps to \<open>NEEDS_RECONNECTION\<close>.
\<close>

theorem getAppConfiguration_timeout_code:
  "(eth s \<and> (r = Never \<or> (\<exists>t v. r = Resolves t v \<and> 1000 \<le> t)
                        \<or> (\<exists>t e. r = Rejects t e \<and> 1000 \<le> t)) \<longrightarrow>
      getAppConfiguration r s = Inl (getAppConfiguration_timeout s))
   \<and> (status s = INITIAL \<longrightarrow>
        statusCode (getAppConfiguration_timeout s) = Some 27904
        \<and> getStatusForError (getAppConfiguration_timeout s) = WRONG_APP)
   \<and> (status s \<noteq> INITIAL \<longrightarrow>
        statusCode (getAppConfiguration_timeout s) = Some (- 1)
        \<and> getStatusForError (getAppConfiguration_timeout s) = NEEDS_RECONNECTION)"
  by (auto simp: getAppConfiguration_def getAppConfiguration_timeout_def getStatusForError_def
      needToOpenEthApp_def isDeviceAsleep_def)

theorem getAppConfiguration_timeout_code_witness:
  "eth session_connecting \<and> status session_connecting = INITIAL
   \<and> getAppConfiguration Never session_connecting
        = Inl (getAppConfiguration_timeout session_connecting)
   \<and> statusCode (getAppConfiguration_timeout session_connecting) = Some 27904
   \<and> getStatusForError (getAppConfiguration_timeout session_connecting) = WRONG_APP
   \<and> eth session_ok \<and> status session_ok \<noteq> INITIAL
   \<and> getAppConfiguration Never session_ok = Inl (getAppConfiguration_timeout session_ok)
   \<and> statusCode (getAppConfiguration_timeout session_ok) = Some (- 1)
   \<and> getStatusForError (getAppConfiguration_timeout session_ok) = NEEDS_RECONNECTION"
  using getAppConfiguration_timeout_code [of session_connecting Never]
    getAppConfiguration_timeout_code [of session_ok Never]
  by (simp add: session_connecting_def session_ok_def)

text \<open>
  Claim C9 as stated fails in status \<open>INITIAL\<close>: the code of the timeout, 27904, is not
  the code of a sleeping device, the classifier maps it to \<open>WRONG_APP\<close> and not to
  \<open>LOCKED\<close>, and handling it leaves the session in \<open>WRONG_APP\<close>.
\<close>

theorem getAppConfiguration_timeout_counterexample:
  "status session_connecting = INITIAL
   \<and> getAppConfiguration Never session_connecting =
        Inl \<lparr>statusCode = Some 27904, message = ''getAppConfiguration timed out''\<rparr>
   \<and> getStatusForError \<lparr>statusCode = Some 27904, message = ''getAppConfiguration timed out''\<rparr>
        = WRONG_APP
   \<and> getStatusForError \<lparr>statusCode = Some 27904, message = ''getAppConfiguration timed out''\<rparr>
        \<noteq> LOCKED
   \<and> \<not> isDeviceAsleep \<lparr>statusCode = Some 27904, message = ''getAppConfiguration timed out''\<rparr>
   \<and> status (handleError \<lparr>statusCode = Some 27904, message = ''getAppConfiguration timed out''\<rparr>
               session_connecting) = WRONG_APP"
  by (simp add: session_connecting_def getAppConfiguration_def getAppConfiguration_timeout_def
      getStatusForError_def needToOpenEthApp_def isDeviceAsleep_def handleError_def)

section \<open>Properties of per-index derivation\<close>

lemma upt_5: "[0..<5] = [0, 1, 2, 3, 4]"
  by (simp add: upt_rec)

lemma deriveAddresses_live:
  "derivation s = Some live \<Longrightarrow> accountLimit s = 5 \<Longrightarrow>
   eth (deriveAddresses s) = eth s
   \<and> derivation (deriveAddresses s) = Some live
   \<and> running (requestQueue (deriveAddresses s)) = running (requestQueue s)
   \<and> pending (requestQueue (deriveAddresses s)) = map DeriveLive [0, 1, 2, 3, 4]
   \<and> addresses (deriveAddresses s) = []
   \<and> status (deriveAddresses s) = DERIVING"
  by (simp add: deriveAddresses_def Let_def deriveLiveAddresses_def enqueueRequests_def
      rq_add_def rq_clear_def upt_5)

lemma drain_done: "deriving s [] addrs \<Longrightarrow> drain env s = Some s"
  by (simp add: drain.simps [of env s] dequeue_def deriving_def)

lemma drain_success:
  assumes "deriving s (DeriveLive i # reqs) addrs"
    and "eth_getAddress env (Some (getPath live i)) False False = Resolves t a"
  shows "\<exists>s'. drain env s = drain env s' \<and> deriving s' reqs (addrs @ [address a])
           \<and> status s' = (if status s = DERIVING then OK else status s)"
proof -
  let ?s1 = "s\<lparr>requestQueue := (requestQueue s)\<lparr>pending := reqs\<rparr>\<rparr>"
  let ?s' = "deriveLive_resume (Inr a) ?s1"
  from assms have deq: "dequeue s = Some (DeriveLive i, ?s1)"
    by (simp add: dequeue_def deriving_def)
  from assms have ex: "deriveLive_execute env i ?s1 = Settled None [] ?s'"
    by (simp add: deriveLive_execute_def deriveLive_begin_def deriving_def)
  have "drain env s = drain env ?s'"
    by (simp add: drain.simps [of env s] deq ex)
  moreover from assms have "deriving ?s' reqs (addrs @ [address a])"
    by (simp add: deriving_def deriveLive_resume_def Let_def)
  moreover from assms have "status ?s' = (if status s = DERIVING then OK else status s)"
    by (simp add: deriving_def deriveLive_resume_def Let_def)
  ultimately show ?thesis by blast
qed

lemma handleError_open:
  "getStatusForError e \<noteq> NEEDS_RECONNECTION \<Longrightarrow>
   eth (handleError e s) = eth s \<and> requestQueue (handleError e s) = requestQueue s"
  by (simp add: handleError_def Let_def)

lemma drain_failure_close:
  assumes "deriving s (DeriveLive i # reqs) addrs"
    and "eth_getAddress env (Some (getPath live i)) False False = Rejects t e"
    and "getStatusForError e = NEEDS_RECONNECTION"
    and "status s \<noteq> NEEDS_RECONNECTION"
  shows "\<exists>s'. drain env s = Some s' \<and> addresses s' = addrs \<and> \<not> eth s'
           \<and> requestQueue s' = \<lparr>pending = [], running = False\<rparr>
           \<and> status s' = NEEDS_RECONNECTION"
proof -
  let ?s1 = "s\<lparr>requestQueue := (requestQueue s)\<lparr>pending := reqs\<rparr>\<rparr>"
  let ?s' = "handleError e ?s1"
  from assms have deq: "dequeue s = Some (DeriveLive i, ?s1)"
    by (simp add: dequeue_def deriving_def)
  from assms have ex: "deriveLive_execute env i ?s1 = Settled None [] ?s'"
    by (simp add: deriveLive_execute_def deriveLive_begin_def deriving_def deriveLive_resume_def)
  have step: "drain env s = drain env ?s'"
    by (simp add: drain.simps [of env s] deq ex)
  from assms have closed: "requestQueue ?s' = \<lparr>pending = [], running = False\<rparr>"
    "\<not> eth ?s'" "addresses ?s' = addrs" "status ?s' = NEEDS_RECONNECTION"
    by (auto simp: handleError_def Let_def rq_close_def deriving_def getStatusForError_def split: if_splits)
  then have "drain env ?s' = Some ?s'"
    by (simp add: drain.simps [of env ?s'] dequeue_def)
  with step closed show ?thesis by simp
qed

lemma handleError_status: "status (handleError err s) = getStatusForError err"
  by (auto simp: handleError_def Let_def getStatusForError_def dest: needToOpenEthApp_not_asleep)

lemma drain_failure_open:
  assumes "deriving s (DeriveLive i # reqs) addrs"
    and "eth_getAddress env (Some (getPath live i)) False False = Rejects t e"
    and "getStatusForError e \<noteq> NEEDS_RECONNECTION"
  shows "\<exists>s'. drain env s = drain env s' \<and> deriving s' reqs addrs
           \<and> status s' = getStatusForError e"
proof -
  let ?s1 = "s\<lparr>requestQueue := (requestQueue s)\<lparr>pending := reqs\<rparr>\<rparr>"
  let ?s' = "handleError e ?s1"
  from assms have deq: "dequeue s = Some (DeriveLive i, ?s1)"
    by (simp add: dequeue_def deriving_def)
  from assms have ex: "deriveLive_execute env i ?s1 = Settled None [] ?s'"
    by (simp add: deriveLive_execute_def deriveLive_begin_def deriving_def deriveLive_resume_def)
  have "drain env s = drain env ?s'"
    by (simp add: drain.simps [of env s] deq ex)
  moreover from assms have "deriving ?s' reqs addrs"
    by (simp add: deriving_def handleError_open)
  ultimately show ?thesis using handleError_status by blast
qed

lemma drain_index2_open:
  assumes s: "eth s" "derivation s = Some live" "accountLimit s = 5" "running (requestQueue s)"
    and r0: "eth_getAddress env (Some (getPath live 0)) False False = Resolves t0 a0"
    and r1: "eth_getAddress env (Some (getPath live 1)) False False = Resolves t1 a1"
    and r2: "eth_getAddress env (Some (getPath live 2)) False False = Rejects t2 e"
    and r3: "eth_getAddress env (Some (getPath live 3)) False False = Resolves t3 a3"
    and r4: "eth_getAddress env (Some (getPath live 4)) False False = Resolves t4 a4"
    and e: "getStatusForError e \<noteq> NEEDS_RECONNECTION"
  shows "\<exists>s'. drain env (deriveAddresses s) = Some s'
           \<and> addresses s' = [address a0, address a1, address a3, address a4]
           \<and> eth s' \<and> running (requestQueue s') \<and> pending (requestQueue s') = []
           \<and> status s' = getStatusForError e"
proof -
  from s have "deriving (deriveAddresses s)
      [DeriveLive 0, DeriveLive 1, DeriveLive 2, DeriveLive 3, DeriveLive 4] []"
    using deriveAddresses_live [of s] by (simp add: deriving_def)
  from drain_success [OF this r0] obtain u0 where
    u0: "drain env (deriveAddresses s) = drain env u0"
      "deriving u0 [DeriveLive 1, DeriveLive 2, DeriveLive 3, DeriveLive 4] [address a0]"
    by auto
  from drain_success [OF u0(2) r1] obtain u1 where
    u1: "drain env u0 = drain env u1"
      "deriving u1 [DeriveLive 2, DeriveLive 3, DeriveLive 4] [address a0, address a1]"
    by auto
  from drain_failure_open [OF u1(2) r2 e] obtain u2 where
    u2: "drain env u1 = drain env u2"
      "deriving u2 [DeriveLive 3, DeriveLive 4] [address a0, address a1]"
      "status u2 = getStatusForError e"
    by auto
  from e u2(3) have nd: "status u2 \<noteq> DERIVING"
    by (auto simp: getStatusForError_def split: if_splits)
  from drain_success [OF u2(2) r3] nd obtain u3 where
    u3: "drain env u2 = drain env u3"
      "deriving u3 [DeriveLive 4] [address a0, address a1, address a3]"
      "status u3 = status u2"
    by auto
  from drain_success [OF u3(2) r4] nd u3(3) obtain u4 where
    u4: "drain env u3 = drain env u4"
      "deriving u4 [] [address a0, address a1, address a3, address a4]"
      "status u4 = status u2"
    by auto
  from drain_done [OF u4(2)] u0(1) u1(1) u2(1) u3(1) u4(1)
  have "drain env (deriveAddresses s) = Some u4" by simp
  with u4(2,3) u2(3) show ?thesis by (auto simp: deriving_def)
qed

lemma drain_index2_close:
  assumes s: "eth s" "derivation s = Some live" "accountLimit s = 5" "running (requestQueue s)"
    and r0: "eth_getAddress env (Some (getPath live 0)) False False = Resolves t0 a0"
    and r1: "eth_getAddress env (Some (getPath live 1)) False False = Resolves t1 a1"
    and r2: "eth_getAddress env (Some (getPath live 2)) False False = Rejects t2 e"
    and e: "getStatusForError e = NEEDS_RECONNECTION"
  shows "\<exists>s'. drain env (deriveAddresses s) = Some s'
           \<and> addresses s' = [address a0, address a1]
           \<and> \<not> eth s' \<and> requestQueue s' = \<lparr>pending = [], running = False\<rparr>
           \<and> status s' = NEEDS_RECONNECTION"
proof -
  from s have d: "deriving (deriveAddresses s)
      [DeriveLive 0, DeriveLive 1, DeriveLive 2, DeriveLive 3, DeriveLive 4] []"
    and st: "status (deriveAddresses s) = DERIVING"
    using deriveAddresses_live [of s] by (simp_all add: deriving_def)
  from drain_success [OF d r0] st obtain u0 where
    u0: "drain env (deriveAddresses s) = drain env u0"
      "deriving u0 [DeriveLive 1, DeriveLive 2, DeriveLive 3, DeriveLive 4] [address a0]"
      "status u0 = OK"
    by auto
  from drain_success [OF u0(2) r1] u0(3) obtain u1 where
    u1: "drain env u0 = drain env u1"
      "deriving u1 [DeriveLive 2, DeriveLive 3, DeriveLive 4] [address a0, address a1]"
      "status u1 = OK"
    by auto
  from u1(3) have "status u1 \<noteq> NEEDS_RECONNECTION" by simp
  from drain_failure_close [OF u1(2) r2 e this] u0(1) u1(1) show ?thesis by simp
qed

lemma env_index2_responses:
  "eth_getAddress (env_index2 e) (Some (getPath live 0)) False False
     = Resolves 20 \<lparr>address = ''0xa0'', publicKey = ''04aa'', chainCode = None\<rparr>"
  "eth_getAddress (env_index2 e) (Some (getPath live 1)) False False
     = Resolves 20 \<lparr>address = ''0xa1'', publicKey = ''04aa'', chainCode = None\<rparr>"
  "eth_getAddress (env_index2 e) (Some (getPath live 2)) False False = Rejects 20 e"
  "eth_getAddress (env_index2 e) (Some (getPath live 3)) False False
     = Resolves 20 \<lparr>address = ''0xa3'', publicKey = ''04aa'', chainCode = None\<rparr>"
  "eth_getAddress (env_index2 e) (Some (getPath live 4)) False False
     = Resolves 20 \<lparr>address = ''0xa4'', publicKey = ''04aa'', chainCode = None\<rparr>"
  by (simp_all add: env_index2_def env_accounts_def live_accounts_def getPath_def
      string_of_nat.simps)

lemma session_ok_fields:
  "eth session_ok" "derivation session_ok = Some live" "accountLimit session_ok = 5"
  "running (requestQueue session_ok)"
  by (simp_all add: session_ok_def)

text \<open>
  Claim C5, as the code has it. Per-index derivation with \<^verbatim>\<open>accountLimit = 5\<close> on a
  connected session with a running queue, where the device calls for indices 0, 1, 3 and
  4 resolve and the call for index 2 rejects. The rejection is caught inside the request
  of index 2: its promise is fulfilled and the error is handed to \<^verbatim>\<open>handleError\<close>. When
  the classifier maps the error to \<open>LOCKED\<close> or \<open>WRONG_APP\<close>, the sibling requests still
  run and the final address list holds the addresses of indices 0, 1, 3, 4 in ascending
  order, in the status of the error. When it maps the error to \<open>NEEDS_RECONNECTION\<close>, the
  error path closes the session, the requests of indices 3 and 4 are dropped with the
  queue, and the list holds the addresses of indices 0 and 1 only.
\<close>

theorem deriveLive_failure_index2:
  assumes "eth s" and "derivation s = Some live" and "accountLimit s = 5"
    and "running (requestQueue s)"
    and "eth_getAddress env (Some (getPath live 0)) False False = Resolves t0 a0"
    and "eth_getAddress env (Some (getPath live 1)) False False = Resolves t1 a1"
    and "eth_getAddress env (Some (getPath live 2)) False False = Rejects t2 e"
    and "eth_getAddress env (Some (getPath live 3)) False False = Resolves t3 a3"
    and "eth_getAddress env (Some (getPath live 4)) False False = Resolves t4 a4"
  shows "(eth u \<and> derivation u = Some live \<longrightarrow>
            deriveLive_execute env 2 u = Settled None [] (handleError e u))
         \<and> (getStatusForError e \<noteq> NEEDS_RECONNECTION \<longrightarrow>
            (\<exists>s'. drain env (deriveAddresses s) = Some s'
               \<and> addresses s' = [address a0, address a1, address a3, address a4]
               \<and> eth s' \<and> running (requestQueue s') \<and> pending (requestQueue s') = []
               \<and> status s' = getStatusForError e))
         \<and> (getStatusForError e = NEEDS_RECONNECTION \<longrightarrow>
            (\<exists>s'. drain env (deriveAddresses s) = Some s'
               \<and> addresses s' = [address a0, address a1]
               \<and> \<not> eth s' \<and> requestQueue s' = \<lparr>pending = [], running = False\<rparr>
               \<and> status s' = NEEDS_RECONNECTION))"
proof (intro conjI impI)
  assume "eth u \<and> derivation u = Some live"
  with assms(7) show "deriveLive_execute env 2 u = Settled None [] (handleError e u)"
    by (simp add: deriveLive_execute_def deriveLive_begin_def deriveLive_resume_def)
next
  assume "getStatusForError e \<noteq> NEEDS_RECONNECTION"
  with assms show "\<exists>s'. drain env (deriveAddresses s) = Some s'
               \<and> addresses s' = [address a0, address a1, address a3, address a4]
               \<and> eth s' \<and> running (requestQueue s') \<and> pending (requestQueue s') = []
               \<and> status s' = getStatusForError e"
    by (rule drain_index2_open)
next
  assume "getStatusForError e = NEEDS_RECONNECTION"
  with assms(1-7) show "\<exists>s'. drain env (deriveAddresses s) = Some s'
               \<and> addresses s' = [address a0, address a1]
               \<and> \<not> eth s' \<and> requestQueue s' = \<lparr>pending = [], running = False\<rparr>
               \<and> status s' = NEEDS_RECONNECTION"
    by (rule drain_index2_close)
qed

theorem deriveLive_failure_index2_witness:
  "eth session_ok \<and> derivation session_ok = Some live \<and> accountLimit session_ok = 5
   \<and> running (requestQueue session_ok)
   \<and> eth_getAddress (env_index2 wrongApp) (Some (getPath live 2)) False False
        = Rejects 20 wrongApp
   \<and> eth_getAddress (env_index2 wrongApp) (Some (getPath live 3)) False False
        = Resolves 20 \<lparr>address = ''0xa3'', publicKey = ''04aa'', chainCode = None\<rparr>
   \<and> getStatusForError wrongApp \<noteq> NEEDS_RECONNECTION
   \<and> map_option addresses (drain (env_index2 wrongApp) (deriveAddresses session_ok))
        = Some [''0xa0'', ''0xa1'', ''0xa3'', ''0xa4'']
   \<and> map_option status (drain (env_index2 wrongApp) (deriveAddresses session_ok))
        = Some WRONG_APP
   \<and> getStatusForError asleep \<noteq> NEEDS_RECONNECTION
   \<and> map_option addresses (drain (env_index2 asleep) (deriveAddresses session_ok))
        = Some [''0xa0'', ''0xa1'', ''0xa3'', ''0xa4'']
   \<and> map_option status (drain (env_index2 asleep) (deriveAddresses session_ok))
        = Some LOCKED"
  using
    deriveLive_failure_index2 [OF session_ok_fields env_index2_responses,
      where e = wrongApp and u = session_ok]
    deriveLive_failure_index2 [OF session_ok_fields env_index2_responses,
      where e = asleep and u = session_ok]
  by (auto simp: wrongApp_def asleep_def getStatusForError_def needToOpenEthApp_def
      isDeviceAsleep_def session_ok_fields env_index2_responses)

text \<open>
  Claim C5 as stated fails when the call for index 2 rejects with an error that carries
  no status code, as a disconnected transport raises: the session is closed and the
  final address list holds two addresses, not four.
\<close>

theorem deriveLive_failure_index2_counterexample:
  "eth_getAddress (env_index2 disconnected) (Some (getPath live 2)) False False
     = Rejects 20 disconnected
   \<and> eth_getAddress (env_index2 disconnected) (Some (getPath live 3)) False False
        = Resolves 20 \<lparr>address = ''0xa3'', publicKey = ''04aa'', chainCode = None\<rparr>
   \<and> eth_getAddress (env_index2 disconnected) (Some (getPath live 4)) False False
        = Resolves 20 \<lparr>address = ''0xa4'', publicKey = ''04aa'', chainCode = None\<rparr>
   \<and> map_option addresses (drain (env_index2 disconnected) (deriveAddresses session_ok))
        = Some [''0xa0'', ''0xa1'']
   \<and> map_option status (drain (env_index2 disconnected) (deriveAddresses session_ok))
        = Some NEEDS_RECONNECTION
   \<and> map_option eth (drain (env_index2 disconnected) (deriveAddresses session_ok))
        = Some False"
  using drain_index2_close [OF session_ok_fields env_index2_responses(1-3),
      where e = disconnected]
  by (auto simp: disconnected_def getStatusForError_def needToOpenEthApp_def isDeviceAsleep_def
      env_index2_responses)

section \<open>Properties of the derivation guard\<close>

lemma retrigger_hardware_example:
  "retrigger_hardware env_accounts session_legacy = Some ([], [''0xb0'', ''0xb1''])"
  by (simp add: retrigger_hardware_def session_legacy_def session_ok_def deriveAddresses_def
      deriveHardwareAddresses_def enqueueRequests_def rq_add_def rq_clear_def dequeue_def
      deriveHardware_begin_def eth_deriveAddresses_def env_accounts_def live_accounts_def
      deriveHardware_resume_def Let_def)

lemma env_accounts_responses:
  "eth_getAddress env_accounts (Some (getPath live 0)) False False
     = Resolves 20 \<lparr>address = ''0xa0'', publicKey = ''04aa'', chainCode = None\<rparr>"
  "eth_getAddress env_accounts (Some (getPath live 1)) False False
     = Resolves 20 \<lparr>address = ''0xa1'', publicKey = ''04aa'', chainCode = None\<rparr>"
  "eth_getAddress env_accounts (Some (getPath live 2)) False False
     = Resolves 20 \<lparr>address = ''0xa2'', publicKey = ''04aa'', chainCode = None\<rparr>"
  "eth_getAddress env_accounts (Some (getPath live 3)) False False
     = Resolves 20 \<lparr>address = ''0xa3'', publicKey = ''04aa'', chainCode = None\<rparr>"
  "eth_getAddress env_accounts (Some (getPath live 4)) False False
     = Resolves 20 \<lparr>address = ''0xa4'', publicKey = ''04aa'', chainCode = None\<rparr>"
  by (simp_all add: env_accounts_def live_accounts_def getPath_def string_of_nat.simps)

lemma retrigger_live_example: "retrigger_live env_accounts session_ok
   = Some [''0xa0'', ''0xa0'', ''0xa1'', ''0xa2'', ''0xa3'', ''0xa4'']"
proof -
  have "\<exists>s1. dequeue (deriveAddresses session_ok) = Some (DeriveLive 0, s1)
          \<and> eth s1 \<and> derivation s1 = Some live \<and> accountLimit s1 = 5
          \<and> running (requestQueue s1)"
    by (simp add: session_ok_def deriveAddresses_def deriveLiveAddresses_def enqueueRequests_def
        rq_add_def rq_clear_def dequeue_def Let_def upt_5)
  then obtain s1 where deq: "dequeue (deriveAddresses session_ok) = Some (DeriveLive 0, s1)"
    and s1: "eth s1" "derivation s1 = Some live" "accountLimit s1 = 5"
      "running (requestQueue s1)"
    by blast
  let ?s2 = "deriveAddresses s1"
  let ?s3 = "deriveLive_resume (Inr \<lparr>address = ''0xa0'', publicKey = ''04aa'', chainCode = None\<rparr>) ?s2"
  from s1 have "deriving ?s3 [DeriveLive 0, DeriveLive 1, DeriveLive 2, DeriveLive 3, DeriveLive 4] [''0xa0'']"
    using deriveAddresses_live [of s1]
    by (simp add: deriving_def deriveLive_resume_def Let_def)
  from drain_success [OF this env_accounts_responses(1)] obtain u0 where
    u0: "drain env_accounts ?s3 = drain env_accounts u0"
      "deriving u0 [DeriveLive 1, DeriveLive 2, DeriveLive 3, DeriveLive 4] [''0xa0'', ''0xa0'']"
    by auto
  from drain_success [OF u0(2) env_accounts_responses(2)] obtain u1 where
    u1: "drain env_accounts u0 = drain env_accounts u1"
      "deriving u1 [DeriveLive 2, DeriveLive 3, DeriveLive 4] [''0xa0'', ''0xa0'', ''0xa1'']"
    by auto
  from drain_success [OF u1(2) env_accounts_responses(3)] obtain u2 where
    u2: "drain env_accounts u1 = drain env_accounts u2"
      "deriving u2 [DeriveLive 3, DeriveLive 4] [''0xa0'', ''0xa0'', ''0xa1'', ''0xa2'']"
    by auto
  from drain_success [OF u2(2) env_accounts_responses(4)] obtain u3 where
    u3: "drain env_accounts u2 = drain env_accounts u3"
      "deriving u3 [DeriveLive 4] [''0xa0'', ''0xa0'', ''0xa1'', ''0xa2'', ''0xa3'']"
    by auto
  from drain_success [OF u3(2) env_accounts_responses(5)] obtain u4 where
    u4: "drain env_accounts u3 = drain env_accounts u4"
      "deriving u4 [] [''0xa0'', ''0xa0'', ''0xa1'', ''0xa2'', ''0xa3'', ''0xa4'']"
    by auto
  from drain_done [OF u4(2)] u0(1) u1(1) u2(1) u3(1) u4(1) u4(2)
  have "map_option addresses (drain env_accounts ?s3)
          = Some [''0xa0'', ''0xa0'', ''0xa1'', ''0xa2'', ''0xa3'', ''0xa4'']"
    by (simp add: deriving_def)
  with deq s1 show ?thesis
    by (simp add: retrigger_live_def deriveLive_begin_def env_accounts_responses Let_def)
qed

text \<open>
  Claim C1, as the code has it. A derivation task changes the address list when it
  completes only if the device call succeeded and the derivation of the session at that
  moment equals the derivation the task targets: the \<^verbatim>\<open>targetDerivation\<close> captured when a
  bulk task was created, \<^verbatim>\<open>live\<close> for a per-index task. Then a bulk task replaces the list
  and a per-index task appends to it. A task that completes after the derivation
  changed to another kind, and a task whose device call failed, leave the list as it is.
\<close>

theorem derive_resume_guard:
  "(derivation s \<noteq> targetDerivation \<longrightarrow>
      addresses (deriveHardware_resume targetDerivation res s) = addresses s)
   \<and> (derivation s \<noteq> Some live \<longrightarrow> addresses (deriveLive_resume res' s) = addresses s)
   \<and> (derivation s = targetDerivation \<longrightarrow>
      addresses (deriveHardware_resume targetDerivation (Inr addrs) s) = addrs)
   \<and> (derivation s = Some live \<longrightarrow>
      addresses (deriveLive_resume (Inr a) s) = addresses s @ [address a])
   \<and> addresses (deriveHardware_resume targetDerivation (Inl e) s) = addresses s
   \<and> addresses (deriveLive_resume (Inl e) s) = addresses s"
  by (simp add: deriveHardware_resume_def deriveLive_resume_def Let_def split: sum.split)

theorem derive_resume_guard_witness:
  "derivation session_legacy \<noteq> Some standard
   \<and> addresses (deriveHardware_resume (Some standard) (Inr [''0xb0'', ''0xb1'']) session_legacy)
        = addresses session_legacy
   \<and> derivation session_legacy \<noteq> Some live
   \<and> addresses (deriveLive_resume (Inr someAddress) session_legacy) = addresses session_legacy
   \<and> derivation session_legacy = Some legacy
   \<and> addresses (deriveHardware_resume (Some legacy) (Inr [''0xb0'', ''0xb1'']) session_legacy)
        = [''0xb0'', ''0xb1'']
   \<and> derivation session_ok = Some live
   \<and> addresses (deriveLive_resume (Inr someAddress) session_ok) = [''0xabcd'']"
  using derive_resume_guard [where s = session_legacy and targetDerivation = "Some standard"
      and res = "Inr [''0xb0'', ''0xb1'']" and res' = "Inr someAddress"]
    derive_resume_guard [where s = session_legacy and targetDerivation = "Some legacy"
      and addrs = "[''0xb0'', ''0xb1'']"]
    derive_resume_guard [where s = session_ok and a = someAddress]
  by (simp add: session_legacy_def session_ok_def someAddress_def)

text \<open>
  Claim C1 as stated fails: the session keeps no epoch, and a second trigger with the same
  derivation does not invalidate the task that is executing. In bulk derivation the
  result of the first trigger's task, completing after the second trigger emptied the
  list, overwrites the list. In per-index derivation the stale result for index 0 is
  appended, and the five tasks of the second trigger append theirs after it, so the
  final list holds the address of index 0 twice.
\<close>

theorem derive_retrigger_counterexample:
  "retrigger_hardware env_accounts session_legacy = Some ([], [''0xb0'', ''0xb1''])
   \<and> retrigger_live env_accounts session_ok
        = Some [''0xa0'', ''0xa0'', ''0xa1'', ''0xa2'', ''0xa3'', ''0xa4'']"
  using retrigger_hardware_example retrigger_live_example by simp

section \<open>Properties of address verification\<close>

lemma dequeue_verifyAddress:
  "running (requestQueue s) \<Longrightarrow> pending (requestQueue s) = [] \<Longrightarrow>
   dequeue (verifyAddress index' currentAddress display cb s)
     = Some (VerifyAddress index' currentAddress display cb, s)"
  by (simp add: dequeue_def verifyAddress_def enqueueRequests_def rq_add_def)

lemma runNext_verifyAddress:
  "running (requestQueue s) \<Longrightarrow> pending (requestQueue s) = [] \<Longrightarrow>
   runNext env (verifyAddress index' currentAddress display cb s)
     = verifyAddress_execute env index' currentAddress display cb s"
  by (simp add: runNext_def dequeue_verifyAddress)

lemma handleError_pending_Nil:
  "pending (requestQueue s) = [] \<Longrightarrow> pending (requestQueue (handleError err s)) = []"
  by (simp add: handleError_def Let_def rq_close_def)

lemma drain_idle: "pending (requestQueue s) = [] \<Longrightarrow> drain env s = Some s"
  by (simp add: drain.simps [of env s] dequeue_def)

lemma drain_verifyAddress:
  assumes "running (requestQueue s)" and "pending (requestQueue s) = []"
    and "verifyAddress_execute env index' currentAddress display cb s = Settled rej calls s'"
  shows "drain env (verifyAddress index' currentAddress display cb s) = drain env s'"
  using assms
  by (simp add: drain.simps [of env "verifyAddress index' currentAddress display cb s"]
      dequeue_verifyAddress)

lemma verifyAddress_catch_calls:
  "verifyAddress_catch cb err calls0 s = (rej, calls, s') \<Longrightarrow>
   \<exists>m. calls = calls0 @ [(Some m, None)]"
  by (auto simp: verifyAddress_catch_def Let_def)

lemma verifyAddress_resume_calls:
  "verifyAddress_resume env cb currentAddress res s = (rej, calls, s') \<Longrightarrow>
   call \<in> set calls \<Longrightarrow> (\<exists>m. call = (Some m, None)) \<or> call = (None, Some True)"
  by (auto simp: verifyAddress_resume_def Let_def
      split: sum.splits if_splits option.splits dest!: verifyAddress_catch_calls)

lemma verifyAddress_execute_calls:
  "verifyAddress_execute env index' currentAddress display cb s = Settled rej calls s' \<Longrightarrow>
   call \<in> set calls \<Longrightarrow> (\<exists>m. call = (Some m, None)) \<or> call = (None, Some True)"
  by (auto simp: verifyAddress_execute_def split: sum.splits option.splits prod.splits
      dest: verifyAddress_resume_calls)

lemma getAddress_settles:
  "eth s \<Longrightarrow> \<not> display \<or> r \<noteq> Never \<Longrightarrow> \<exists>res. getAddress r display s = Some res"
  by (cases r; cases display) (simp_all add: getAddress_def)

lemma verifyAddress_execute_settles:
  assumes "eth s" and "derivation s = Some d" and "\<forall>call. cb call = None"
    and "getAddress (eth_getAddress env (Some (getPath d index')) display True) display s
           = Some res"
  shows "verifyAddress_execute env index' currentAddress display cb s =
     (case res of
        Inr result \<Rightarrow>
          if toLowerCase env (address result) \<noteq> toLowerCase env currentAddress then
            Settled None [(Some ''Address does not match device'', None)]
              (handleError \<lparr>statusCode = Some (- 1), message = ''''\<rparr> s)
          else Settled None [(None, Some True)] s
      | Inl err \<Rightarrow>
          Settled None [(Some (''verify address error: '' @ message err), None)]
            (handleError err s))"
  using assms
  by (simp add: verifyAddress_execute_def verifyAddress_begin_def verifyAddress_resume_def
      verifyAddress_catch_def Let_def split: sum.split)

text \<open>
  Claim C8, as the code has it. \<^verbatim>\<open>verifyAddress\<close> enqueues one request; on a connected
  session with a known derivation and an idle, running queue, with a callback that
  returns, the queue runs it as follows. When the device returns an address (before the
  3000 ms timer, or with \<^verbatim>\<open>display\<close> set), the address and the expected one are compared
  after \<^verbatim>\<open>toLowerCase\<close> on both: on a match the callback is called once with no error and
  \<open>True\<close> and the session is left as it is; on a mismatch the callback is called once
  with an error and no result, and the synthetic code \<open>-1\<close>, which leaves the session in
  \<open>NEEDS_RECONNECTION\<close>, goes through \<^verbatim>\<open>handleError\<close>. When the guarded call fails or
  times out, the error goes through \<^verbatim>\<open>handleError\<close> and the callback is called once with
  an error and no result. Without \<^verbatim>\<open>display\<close>, or with a device that settles, the
  callback is called exactly once. With \<^verbatim>\<open>display\<close> and a device that never answers
  there is no timer, the request never settles and the callback is not called. Whatever
  the callback and the session, every call the request makes has an error and no result,
  or no error and \<open>True\<close>. For ASCII strings the comparison is equality up to the case of
  the letters \<^verbatim>\<open>A\<close> to \<^verbatim>\<open>Z\<close>.
\<close>

theorem verifyAddress_callback:
  assumes "eth s" and "derivation s = Some d"
    and "running (requestQueue s)" and "pending (requestQueue s) = []"
    and "\<forall>call. cb call = None"
  shows
    "(eth_getAddress env (Some (getPath d index')) display True = Resolves t result
        \<and> (display \<or> t < 3000)
        \<and> toLowerCase env (address result) = toLowerCase env currentAddress \<longrightarrow>
      runNext env (verifyAddress index' currentAddress display cb s)
        = Settled None [(None, Some True)] s
      \<and> drain env (verifyAddress index' currentAddress display cb s) = Some s)
     \<and> (eth_getAddress env (Some (getPath d index')) display True = Resolves t result
        \<and> (display \<or> t < 3000)
        \<and> toLowerCase env (address result) \<noteq> toLowerCase env currentAddress \<longrightarrow>
      runNext env (verifyAddress index' currentAddress display cb s)
        = Settled None [(Some ''Address does not match device'', None)]
            (handleError \<lparr>statusCode = Some (- 1), message = ''''\<rparr> s)
      \<and> drain env (verifyAddress index' currentAddress display cb s)
        = Some (handleError \<lparr>statusCode = Some (- 1), message = ''''\<rparr> s)
      \<and> status (handleError \<lparr>statusCode = Some (- 1), message = ''''\<rparr> s)
        = NEEDS_RECONNECTION)
     \<and> (getAddress (eth_getAddress env (Some (getPath d index')) display True) display s
          = Some (Inl err) \<longrightarrow>
      runNext env (verifyAddress index' currentAddress display cb s)
        = Settled None [(Some (''verify address error: '' @ message err), None)]
            (handleError err s))
     \<and> (\<not> display \<or> eth_getAddress env (Some (getPath d index')) display True \<noteq> Never \<longrightarrow>
      (\<exists>call s'. runNext env (verifyAddress index' currentAddress display cb s)
                    = Settled None [call] s'
         \<and> ((\<exists>m. call = (Some m, None)) \<or> call = (None, Some True))))
     \<and> (display \<and> eth_getAddress env (Some (getPath d index')) display True = Never \<longrightarrow>
      runNext env (verifyAddress index' currentAddress display cb s) = Hangs
      \<and> drain env (verifyAddress index' currentAddress display cb s) = None)
     \<and> (execute env (VerifyAddress index' currentAddress display cb') u = Settled rej calls u'
        \<longrightarrow> (\<forall>call \<in> set calls. (\<exists>m. call = (Some m, None)) \<or> call = (None, Some True)))
     \<and> ((\<forall>str. ascii str \<longrightarrow> toLowerCase env str = lowerAZ str)
        \<and> ascii (address result) \<and> ascii currentAddress \<longrightarrow>
      (toLowerCase env (address result) = toLowerCase env currentAddress)
        = (lowerAZ (address result) = lowerAZ currentAddress))"
proof -
  let ?r = "eth_getAddress env (Some (getPath d index')) display True"
  let ?v = "verifyAddress index' currentAddress display cb s"
  let ?timeout = "handleError \<lparr>statusCode = Some (- 1), message = ''''\<rparr> s"
  have rn: "runNext env ?v = verifyAddress_execute env index' currentAddress display cb s"
    using assms(3,4) by (rule runNext_verifyAddress)
  note settles = verifyAddress_execute_settles [OF assms(1,2,5)]
  have dr: "drain env ?v = Some s'"
    if "verifyAddress_execute env index' currentAddress display cb s = Settled rej' calls' s'"
      and "pending (requestQueue s') = []" for rej' calls' s'
    using drain_verifyAddress [OF assms(3,4) that(1)] drain_idle [OF that(2)] by simp
  have c1: "runNext env ?v = Settled None [(None, Some True)] s \<and> drain env ?v = Some s"
    if "?r = Resolves t result \<and> (display \<or> t < 3000)
        \<and> toLowerCase env (address result) = toLowerCase env currentAddress"
  proof -
    from that assms(1) have "getAddress ?r display s = Some (Inr result)"
      by (auto simp: getAddress_def)
    from settles [OF this] that
    have ex: "verifyAddress_execute env index' currentAddress display cb s
        = Settled None [(None, Some True)] s"
      by simp
    with rn dr [OF ex assms(4)] show ?thesis by simp
  qed
  have c2: "runNext env ?v = Settled None [(Some ''Address does not match device'', None)] ?timeout
      \<and> drain env ?v = Some ?timeout \<and> status ?timeout = NEEDS_RECONNECTION"
    if "?r = Resolves t result \<and> (display \<or> t < 3000)
        \<and> toLowerCase env (address result) \<noteq> toLowerCase env currentAddress"
  proof -
    from that assms(1) have "getAddress ?r display s = Some (Inr result)"
      by (auto simp: getAddress_def)
    from settles [OF this] that
    have ex: "verifyAddress_execute env index' currentAddress display cb s
        = Settled None [(Some ''Address does not match device'', None)] ?timeout"
      by simp
    have "status ?timeout = NEEDS_RECONNECTION"
      by (simp add: handleError_status getStatusForError_def needToOpenEthApp_def
          isDeviceAsleep_def)
    with rn ex dr [OF ex handleError_pending_Nil [OF assms(4)]] show ?thesis by simp
  qed
  have c3: "runNext env ?v
      = Settled None [(Some (''verify address error: '' @ message err), None)] (handleError err s)"
    if "getAddress ?r display s = Some (Inl err)"
    using settles [OF that] rn by simp
  have c4: "\<exists>call s'. runNext env ?v = Settled None [call] s'
      \<and> ((\<exists>m. call = (Some m, None)) \<or> call = (None, Some True))"
    if "\<not> display \<or> ?r \<noteq> Never"
  proof -
    from that assms(1) obtain res where "getAddress ?r display s = Some res"
      using getAddress_settles [of s display ?r] by blast
    from settles [OF this] rn show ?thesis
      by (cases res) auto
  qed
  have c5: "runNext env ?v = Hangs \<and> drain env ?v = None" if "display \<and> ?r = Never"
  proof -
    from that have "display" and "?r = Never" by blast+
    with assms(1,2)
    have ex: "verifyAddress_execute env index' currentAddress display cb s = Hangs"
      by (simp add: verifyAddress_execute_def verifyAddress_begin_def getAddress_def)
    with rn assms(3,4) show ?thesis
      by (simp add: drain.simps [of env ?v] dequeue_verifyAddress)
  qed
  have c6: "\<forall>call \<in> set calls. (\<exists>m. call = (Some m, None)) \<or> call = (None, Some True)"
    if "execute env (VerifyAddress index' currentAddress display cb') u = Settled rej calls u'"
    using that verifyAddress_execute_calls [of env index' currentAddress display cb' u rej calls u']
    by auto
  have c7: "(toLowerCase env (address result) = toLowerCase env currentAddress)
        = (lowerAZ (address result) = lowerAZ currentAddress)"
    if "(\<forall>str. ascii str \<longrightarrow> toLowerCase env str = lowerAZ str)
        \<and> ascii (address result) \<and> ascii currentAddress"
    using that by simp
  from c1 c2 c3 c4 c5 c6 c7 show ?thesis by blast
qed

lemma cb_returns_all: "\<forall>call. cb_returns call = None"
  by (simp add: cb_returns_def)

text \<open>
  The device returns \<^verbatim>\<open>0xabcd\<close>: verifying \<^verbatim>\<open>0xABCD\<close> reports success, verifying
  \<^verbatim>\<open>0xABCE\<close> reports the mismatch and closes the session for reconnection. A sleeping
  device and a silent one report a verification error; with \<^verbatim>\<open>display\<close> the silent
  device leaves the request pending.
\<close>

theorem verifyAddress_callback_witness:
  "eth session_ok \<and> derivation session_ok = Some live
   \<and> running (requestQueue session_ok) \<and> pending (requestQueue session_ok) = []
   \<and> cb_returns (None, Some True) = None
   \<and> eth_getAddress env_abcd (Some (getPath live 0)) False True
        = Resolves 25 \<lparr>address = ''0xabcd'', publicKey = ''04aa'', chainCode = Some ''c0de''\<rparr>
   \<and> ascii ''0xabcd'' \<and> ascii ''0xABCD''
   \<and> toLowerCase env_abcd ''0xabcd'' = toLowerCase env_abcd ''0xABCD''
   \<and> runNext env_abcd (verifyAddress 0 ''0xABCD'' False cb_returns session_ok)
        = Settled None [(None, Some True)] session_ok
   \<and> drain env_abcd (verifyAddress 0 ''0xABCD'' False cb_returns session_ok) = Some session_ok
   \<and> toLowerCase env_abcd ''0xabcd'' \<noteq> toLowerCase env_abcd ''0xABCE''
   \<and> runNext env_abcd (verifyAddress 0 ''0xABCE'' False cb_returns session_ok)
        = Settled None [(Some ''Address does not match device'', None)]
            (handleError \<lparr>statusCode = Some (- 1), message = ''''\<rparr> session_ok)
   \<and> status (handleError \<lparr>statusCode = Some (- 1), message = ''''\<rparr> session_ok)
        = NEEDS_RECONNECTION
   \<and> getAddress (eth_getAddress env_asleep (Some (getPath live 0)) False True) False session_ok
        = Some (Inl asleep)
   \<and> runNext env_asleep (verifyAddress 0 ''0xABCD'' False cb_returns session_ok)
        = Settled None [(Some ''verify address error: '', None)] (handleError asleep session_ok)
   \<and> eth_getAddress env_silent (Some (getPath live 0)) True True = Never
   \<and> runNext env_silent (verifyAddress 0 ''0xABCD'' True cb_returns session_ok) = Hangs
   \<and> runNext env_silent (verifyAddress 0 ''0xABCD'' False cb_returns session_ok)
        = Settled None [(Some ''verify address error: getAddress timed out'', None)]
            (handleError \<lparr>statusCode = Some (- 1), message = ''getAddress timed out''\<rparr>
               session_ok)"
  using
    verifyAddress_callback [OF session_ok_fields(1,2,4) _ cb_returns_all,
      where env = env_abcd and index' = 0 and display = False and t = 25
        and result = "\<lparr>address = ''0xabcd'', publicKey = ''04aa'', chainCode = Some ''c0de''\<rparr>"
        and currentAddress = "''0xABCD''"]
    verifyAddress_callback [OF session_ok_fields(1,2,4) _ cb_returns_all,
      where env = env_abcd and index' = 0 and display = False and t = 25
        and result = "\<lparr>address = ''0xabcd'', publicKey = ''04aa'', chainCode = Some ''c0de''\<rparr>"
        and currentAddress = "''0xABCE''"]
    verifyAddress_callback [OF session_ok_fields(1,2,4) _ cb_returns_all,
      where env = env_asleep and index' = 0 and display = False and err = asleep
        and currentAddress = "''0xABCD''"]
    verifyAddress_callback [OF session_ok_fields(1,2,4) _ cb_returns_all,
      where env = env_silent and index' = 0 and display = True
        and currentAddress = "''0xABCD''"]
    verifyAddress_callback [OF session_ok_fields(1,2,4) _ cb_returns_all,
      where env = env_silent and index' = 0 and display = False
        and err = "\<lparr>statusCode = Some (- 1), message = ''getAddress timed out''\<rparr>"
        and currentAddress = "''0xABCD''"]
  by (simp add: session_ok_fields cb_returns_def env_abcd_def env_asleep_def env_silent_def
      asleep_def lowerAZ_def lowerAZ_char_def ascii_def getAddress_def
      session_ok_def)

lemma session_ok_pending: "pending (requestQueue session_ok) = []"
  by (simp add: session_ok_def)

lemma opened_fields:
  "eth (open_session constructor)" "derivation (open_session constructor) = None"
  "running (requestQueue (open_session constructor))"
  "pending (requestQueue (open_session constructor)) = []"
  by (simp_all add: open_session_def constructor_def rq_start_def)

text \<open>
  Claim C8 as stated fails: the callback is not always called. With \<^verbatim>\<open>display\<close> set the
  call has no timer, so with a device that never answers the request never settles, no
  call is made and the queue stays blocked. And on the session \<^verbatim>\<open>open\<close> leaves, whose
  derivation is unset, the guard before the \<^verbatim>\<open>try\<close> rejects the promise without a call.
\<close>

theorem verifyAddress_callback_counterexample:
  "runNext env_silent (verifyAddress 0 ''0xabcd'' True cb_returns session_ok) = Hangs
   \<and> drain env_silent (verifyAddress 0 ''0xabcd'' True cb_returns session_ok) = None
   \<and> runNext env_abcd (verifyAddress 0 ''0xabcd'' False cb_returns (open_session constructor))
        = Settled
            (Some \<lparr>statusCode = None,
                   message = ''attempted to verify address for unknown derivation!''\<rparr>)
            [] (open_session constructor)"
proof -
  have hangs: "verifyAddress_execute env_silent 0 ''0xabcd'' True cb_returns session_ok = Hangs"
    by (simp add: verifyAddress_execute_def verifyAddress_begin_def getAddress_def
        session_ok_fields env_silent_def)
  have "runNext env_silent (verifyAddress 0 ''0xabcd'' True cb_returns session_ok) = Hangs"
    by (simp add: runNext_verifyAddress session_ok_fields session_ok_pending hangs)
  moreover
  have "drain env_silent (verifyAddress 0 ''0xabcd'' True cb_returns session_ok) = None"
    by (simp add: drain.simps [of env_silent "verifyAddress 0 ''0xabcd'' True cb_returns session_ok"]
        dequeue_verifyAddress session_ok_fields session_ok_pending hangs)
  moreover
  have "runNext env_abcd (verifyAddress 0 ''0xabcd'' False cb_returns (open_session constructor))
        = Settled
            (Some \<lparr>statusCode = None,
                   message = ''attempted to verify address for unknown derivation!''\<rparr>)
            [] (open_session constructor)"
    by (simp add: runNext_verifyAddress opened_fields verifyAddress_execute_def
        verifyAddress_begin_def)
  ultimately show ?thesis by simp
qed

text \<open>
  A callback that throws on its first call is called a second time, by the \<^verbatim>\<open>catch\<close>
  block, and what it throws there rejects the promise.
\<close>

lemma verifyAddress_callback_throws:
  "runNext env_abcd (verifyAddress 0 ''0xABCD'' False cb_throws session_ok)
     = Settled (Some \<lparr>statusCode = None, message = ''callback failed''\<rparr>)
         [(None, Some True), (Some ''verify address error: callback failed'', None)]
         (handleError \<lparr>statusCode = None, message = ''callback failed''\<rparr> session_ok)"
proof -
  have "getAddress (eth_getAddress env_abcd (Some (getPath live 0)) False True) False session_ok
      = Some (Inr \<lparr>address = ''0xabcd'', publicKey = ''04aa'', chainCode = Some ''c0de''\<rparr>)"
    by (simp add: getAddress_def session_ok_fields env_abcd_def)
  moreover have "toLowerCase env_abcd ''0xabcd'' = toLowerCase env_abcd ''0xABCD''"
    by (simp add: env_abcd_def lowerAZ_def lowerAZ_char_def)
  ultimately show ?thesis
    by (simp add: runNext_verifyAddress session_ok_fields session_ok_pending
        verifyAddress_execute_def verifyAddress_begin_def verifyAddress_resume_def
        verifyAddress_catch_def cb_throws_def Let_def)
qed

end
